theory Spec2Isabelle
  imports Main "HOL-Library.Word" "HOL-Library.Multiset"
begin

section \<open>Package wire: the values the peer engine handles\<close>

text \<open>
  The peer engine is \<^verbatim>\<open>package peer\<close> (the second document of
  \<^verbatim>\<open>src/pkg/ecc/precomp/genprecomps.go\<close>). Package \<^verbatim>\<open>wire\<close> is not under
  \<^verbatim>\<open>src/\<close>, apart from \<^verbatim>\<open>MsgGetHeaders\<close>; what the peer reads of a message is
  kept, every other field is left out.

  A \<^verbatim>\<open>chainhash.Hash\<close> is an array of 32 bytes; the peer only compares hashes. A
  \<^verbatim>\<open>*chainhash.Hash\<close> is a \<open>Hash option\<close>, \<open>None\<close> the nil pointer.
\<close>

type_synonym Hash = "8 word list"

text \<open>\<^verbatim>\<open>wire.InvVect\<close>: the inventory type (a \<^verbatim>\<open>uint32\<close>) and the hash.\<close>

record InvVect =
  Type :: "32 word"
  Hash :: Hash

text \<open>
  Modelled from the spec: the inventory types of package wire (section 3, "Types include
  tx, block, filtered-block, and witness variants"); the witness flag is bit 30.
\<close>

definition InvTypeTx :: "32 word" where
  "InvTypeTx = 1"

definition InvTypeBlock :: "32 word" where
  "InvTypeBlock = 2"

definition InvTypeWitnessBlock :: "32 word" where
  "InvTypeWitnessBlock = 1073741826"

text \<open>\<^verbatim>\<open>wire.NetAddress\<close>; \<^verbatim>\<open>PushAddrMsg\<close> moves the addresses and never looks into them.\<close>

record NetAddress =
  IP :: "8 word list"
  Port :: "16 word"

text \<open>
  \<^verbatim>\<open>wire.MsgVersion\<close>: \<^verbatim>\<open>ProtocolVersion\<close> and \<^verbatim>\<open>LastBlock\<close> are \<^verbatim>\<open>int32\<close>,
  \<^verbatim>\<open>Timestamp\<close> is the \<^verbatim>\<open>time.Time\<close> read as \<^verbatim>\<open>Timestamp.Unix()\<close> (an \<^verbatim>\<open>int64\<close>).
\<close>

record MsgVersion =
  ProtocolVersion :: "32 word"
  Services :: "64 word"
  Timestamp :: "64 word"
  VNonce :: "64 word"
  UserAgent :: string
  LastBlock :: "32 word"

datatype RejectCode =
  RejectMalformed | RejectInvalid | RejectObsolete | RejectDuplicate
  | RejectNonstandard | RejectDust | RejectInsufficientFee | RejectCheckpoint

text \<open>\<^verbatim>\<open>wire.MsgReject\<close> as \<^verbatim>\<open>wire.NewMsgReject(command, code, reason)\<close> builds it; the
  hash is the zero hash until \<^verbatim>\<open>PushRejectMsg\<close> fills it.\<close>

record MsgReject =
  Cmd :: string
  RejectCode :: RejectCode
  Reason :: string
  RejectHash :: Hash

definition zeroHash :: Hash where
  "zeroHash = replicate 32 0"

definition NewMsgReject :: "string \<Rightarrow> RejectCode \<Rightarrow> string \<Rightarrow> MsgReject" where
  "NewMsgReject command code reason =
     \<lparr>Cmd = command, RejectCode = code, Reason = reason, RejectHash = zeroHash\<rparr>"

text \<open>
  \<^verbatim>\<open>wire.Message\<close>. \<open>MGetBlocks\<close> holds \<^verbatim>\<open>BlockLocatorHashes\<close> and \<^verbatim>\<open>HashStop\<close>.
  \<open>MOther c\<close> is any message whose fields the peer does not read, with its command \<open>c\<close>
  (getdata, getheaders, headers, block, tx, merkleblock, notfound, mempool, ...).
\<close>

datatype Message =
    MVersion MsgVersion
  | MVerAck
  | MInv "InvVect list"
  | MAddr "NetAddress list"
  | MGetBlocks "Hash option list" Hash
  | MReject MsgReject
  | MPing "64 word"
  | MPong "64 word"
  | MSendHeaders
  | MOther string

text \<open>Modelled from the spec: the command names of package wire (section 3 lists them).\<close>

definition CmdVersion :: string where "CmdVersion = ''version''"
definition CmdVerAck :: string where "CmdVerAck = ''verack''"
definition CmdInv :: string where "CmdInv = ''inv''"
definition CmdAddr :: string where "CmdAddr = ''addr''"
definition CmdGetBlocks :: string where "CmdGetBlocks = ''getblocks''"
definition CmdGetData :: string where "CmdGetData = ''getdata''"
definition CmdGetHeaders :: string where "CmdGetHeaders = ''getheaders''"
definition CmdHeaders :: string where "CmdHeaders = ''headers''"
definition CmdBlock :: string where "CmdBlock = ''block''"
definition CmdMerkleBlock :: string where "CmdMerkleBlock = ''merkleblock''"
definition CmdTx :: string where "CmdTx = ''tx''"
definition CmdNotFound :: string where "CmdNotFound = ''notfound''"
definition CmdMemPool :: string where "CmdMemPool = ''mempool''"
definition CmdReject :: string where "CmdReject = ''reject''"
definition CmdPing :: string where "CmdPing = ''ping''"
definition CmdPong :: string where "CmdPong = ''pong''"
definition CmdSendHeaders :: string where "CmdSendHeaders = ''sendheaders''"

lemmas Cmd_defs =
  CmdVersion_def CmdVerAck_def CmdInv_def CmdAddr_def CmdGetBlocks_def CmdGetData_def
  CmdGetHeaders_def CmdHeaders_def CmdBlock_def CmdMerkleBlock_def CmdTx_def
  CmdNotFound_def CmdMemPool_def CmdReject_def CmdPing_def CmdPong_def CmdSendHeaders_def

fun Command :: "Message \<Rightarrow> string" where
  "Command (MVersion _) = CmdVersion"
| "Command MVerAck = CmdVerAck"
| "Command (MInv _) = CmdInv"
| "Command (MAddr _) = CmdAddr"
| "Command (MGetBlocks _ _) = CmdGetBlocks"
| "Command (MReject _) = CmdReject"
| "Command (MPing _) = CmdPing"
| "Command (MPong _) = CmdPong"
| "Command MSendHeaders = CmdSendHeaders"
| "Command (MOther c) = c"

section \<open>The stall handler\<close>

text \<open>
  A \<^verbatim>\<open>time.Time\<close> is a number of nanoseconds, a \<^verbatim>\<open>time.Duration\<close> too.
  \<^verbatim>\<open>stallResponseTimeout = 360 * time.Second\<close>.
\<close>

definition Second :: int where
  "Second = 1000000000"

definition stallResponseTimeout :: int where
  "stallResponseTimeout = 360 * Second"

text \<open>
  \<^verbatim>\<open>maybeAddDeadline\<close> reads the clock once on entry (\<open>now\<close>) and once more in the
  getheaders case (\<open>now2\<close>). \<^verbatim>\<open>pendingResponses\<close> is the Go map from command to
  deadline.
\<close>

definition maybeAddDeadline ::
  "int \<Rightarrow> int \<Rightarrow> (string \<rightharpoonup> int) \<Rightarrow> string \<Rightarrow> (string \<rightharpoonup> int)" where
  "maybeAddDeadline now now2 pendingResponses msgCmd =
     (let deadline = now + stallResponseTimeout in
      if msgCmd = CmdVersion then pendingResponses(CmdVerAck \<mapsto> deadline)
      else if msgCmd = CmdMemPool then pendingResponses(CmdInv \<mapsto> deadline)
      else if msgCmd = CmdGetBlocks then pendingResponses(CmdInv \<mapsto> deadline)
      else if msgCmd = CmdGetData then
        pendingResponses(CmdBlock \<mapsto> deadline, CmdMerkleBlock \<mapsto> deadline,
          CmdTx \<mapsto> deadline, CmdNotFound \<mapsto> deadline)
      else if msgCmd = CmdGetHeaders then
        (let deadline = now2 + stallResponseTimeout * 3 in
         pendingResponses(CmdHeaders \<mapsto> deadline))
      else pendingResponses)"

datatype stallControlCmd = sccSendMessage | sccReceiveMessage | sccHandlerStart | sccHandlerDone

record stallControlMsg =
  command :: stallControlCmd
  message :: Message

text \<open>The local variables of \<^verbatim>\<open>stallHandler\<close>.\<close>

record stallState =
  handlerActive :: bool
  handlersStartTime :: int
  deadlineOffset :: int
  pendingResponses :: "string \<rightharpoonup> int"

definition stallState_init :: stallState where
  "stallState_init =
     \<lparr>handlerActive = False, handlersStartTime = 0, deadlineOffset = 0,
      pendingResponses = Map.empty\<rparr>"

text \<open>
  The \<^verbatim>\<open>case msg := <-p.stallControl\<close> branch of the loop of \<^verbatim>\<open>stallHandler\<close>, run
  with the clock at \<open>now\<close> (\<open>now2\<close> is the second reading of \<^verbatim>\<open>maybeAddDeadline\<close>).
\<close>

definition stallHandler_control ::
  "int \<Rightarrow> int \<Rightarrow> stallState \<Rightarrow> stallControlMsg \<Rightarrow> stallState" where
  "stallHandler_control now now2 s msg =
     (case command msg of
        sccSendMessage \<Rightarrow>
          s\<lparr>pendingResponses :=
              maybeAddDeadline now now2 (pendingResponses s) (Command (message msg))\<rparr>
      | sccReceiveMessage \<Rightarrow>
          (let msgCmd = Command (message msg) in
           if msgCmd = CmdBlock \<or> msgCmd = CmdMerkleBlock \<or> msgCmd = CmdTx
              \<or> msgCmd = CmdNotFound
           then s\<lparr>pendingResponses :=
                  (pendingResponses s)(CmdBlock := None, CmdMerkleBlock := None,
                    CmdTx := None, CmdNotFound := None)\<rparr>
           else s\<lparr>pendingResponses := (pendingResponses s)(msgCmd := None)\<rparr>)
      | sccHandlerStart \<Rightarrow>
          (if handlerActive s then s
           else s\<lparr>handlerActive := True, handlersStartTime := now\<rparr>)
      | sccHandlerDone \<Rightarrow>
          (if \<not> handlerActive s then s
           else s\<lparr>deadlineOffset := deadlineOffset s + (now - handlersStartTime s),
                  handlerActive := False\<rparr>))"

section \<open>The peer\<close>

subsection \<open>The known-inventory cache\<close>

text \<open>
  Modelled from the spec: \<^verbatim>\<open>mruInventoryMap\<close> (section 3, "MRU maps": a bounded
  most-recently-used set of inventory vectors; on insert at capacity the least recently
  used entry is evicted). The file that declares it is not under \<^verbatim>\<open>src/\<close>.
  \<open>invList\<close> holds the entries, the most recently used first; a cache of capacity 0 holds
  nothing.
\<close>

record mruInventoryMap =
  invList :: "InvVect list"
  limit :: nat

definition newMruInventoryMap :: "nat \<Rightarrow> mruInventoryMap" where
  "newMruInventoryMap n = \<lparr>invList = [], limit = n\<rparr>"

definition Exists :: "mruInventoryMap \<Rightarrow> InvVect \<Rightarrow> bool" where
  "Exists m iv = List.member (invList m) iv"

definition Add :: "mruInventoryMap \<Rightarrow> InvVect \<Rightarrow> mruInventoryMap" where
  "Add m iv =
     (if limit m = 0 then m
      else if List.member (invList m) iv then m\<lparr>invList := iv # remove1 iv (invList m)\<rparr>
      else if length (invList m) + 1 > limit m then m\<lparr>invList := iv # butlast (invList m)\<rparr>
      else m\<lparr>invList := iv # invList m\<rparr>)"

subsection \<open>The peer's fields\<close>

text \<open>
  \<^verbatim>\<open>net.Conn\<close>, as far as the peer uses it: the messages that
  \<^verbatim>\<open>wire.WriteMessageWithEncodingN\<close> wrote to this connection without an error, oldest
  first, and the number of calls of \<^verbatim>\<open>Close\<close>.
\<close>

record Conn =
  written :: "Message list"
  closed :: nat

text \<open>\<^verbatim>\<open>wire.MessageEncoding\<close>; \<open>EncodingZero\<close> is the zero value of the Go type, which
  \<^verbatim>\<open>outMsg{msg: invMsg}\<close> leaves in the field.\<close>

datatype MessageEncoding = EncodingZero | BaseEncoding | WitnessEncoding

definition LatestEncoding :: MessageEncoding where
  "LatestEncoding = WitnessEncoding"

text \<open>\<^verbatim>\<open>outMsg\<close>; a done channel is named by a number, \<open>None\<close> is the nil channel.\<close>

record outMsg =
  msg :: Message
  doneChan :: "nat option"
  encoding :: MessageEncoding

text \<open>
  \<^verbatim>\<open>Peer\<close>. The \<^verbatim>\<open>int32\<close>, \<^verbatim>\<open>uint32\<close>, \<^verbatim>\<open>int64\<close> and \<^verbatim>\<open>uint64\<close> fields are words, so
  that \<^verbatim>\<open>atomic.AddInt32\<close> and the other additions wrap as they do in Go. A channel is
  the list of what waits in it, oldest first (\<^verbatim>\<open>outputQueue\<close>, \<^verbatim>\<open>outputInvChan\<close>); for
  \<^verbatim>\<open>sendQueue\<close> and \<^verbatim>\<open>stallControl\<close>, which the code modelled here only sends on, it is
  the list of everything sent so far. A quit channel (\<^verbatim>\<open>qu.C\<close>) is the number of calls
  of \<^verbatim>\<open>Q\<close>. \<open>doneSignals c\<close> is the number of values sent so far on done channel \<open>c\<close>, and
  \<open>nextChan\<close> the number of the next channel \<^verbatim>\<open>qu.Ts(1)\<close> makes. Sends never block here:
  the capacities of the channels are not modelled.
\<close>

record Peer =
  bytesReceived :: "64 word"
  bytesSent :: "64 word"
  lastRecv :: "64 word"
  lastSend :: "64 word"
  connected :: "32 word"
  disconnect :: "32 word"
  conn :: Conn
  Nonce :: "64 word"
  inbound :: bool
  peer_id :: "32 word"
  userAgent :: string
  services :: "64 word"
  versionKnown :: bool
  advertisedProtoVer :: "32 word"
  protocolVersion :: "32 word"
  sendHeadersPreferred :: bool
  verAckReceived :: bool
  knownInventory :: mruInventoryMap
  prevGetBlocksBegin :: "Hash option"
  prevGetBlocksStop :: "Hash option"
  timeOffset :: "64 word"
  startingHeight :: "32 word"
  lastBlock :: "32 word"
  lastPingNonce :: "64 word"
  lastPingTime :: int
  lastPingMicros :: int
  stallControl :: "stallControlMsg list"
  outputQueue :: "outMsg list"
  sendQueue :: "outMsg list"
  outputInvChan :: "InvVect list"
  inQuit :: nat
  quit :: nat
  doneSignals :: "nat \<Rightarrow> nat"
  nextChan :: nat

subsection \<open>Connecting and disconnecting\<close>

definition Connected :: "Peer \<Rightarrow> bool" where
  "Connected p = (connected p \<noteq> 0 \<and> disconnect p = 0)"

text \<open>\<^verbatim>\<open>Disconnect\<close>: \<^verbatim>\<open>atomic.AddInt32(&p.disconnect, 1)\<close> adds one to the 32-bit counter
  and returns the new value.\<close>

definition Disconnect :: "Peer \<Rightarrow> Peer" where
  "Disconnect p =
     (let p1 = p\<lparr>disconnect := disconnect p + 1\<rparr> in
      if disconnect p1 \<noteq> 1 then p1
      else
        (let p2 = (if connected p1 \<noteq> 0
                   then p1\<lparr>conn := (conn p1)\<lparr>closed := closed (conn p1) + 1\<rparr>\<rparr>
                   else p1)
         in p2\<lparr>quit := quit p2 + 1\<rparr>))"

subsection \<open>Queueing messages and inventory\<close>

text \<open>\<^verbatim>\<open>QueueMessageWithEncoding\<close>: on a peer that is not connected the goroutine it
  starts sends one value on the done channel, if there is one.\<close>

definition QueueMessageWithEncoding ::
  "Peer \<Rightarrow> Message \<Rightarrow> nat option \<Rightarrow> MessageEncoding \<Rightarrow> Peer" where
  "QueueMessageWithEncoding p m done enc =
     (if \<not> Connected p then
        (case done of
           None \<Rightarrow> p
         | Some c \<Rightarrow> p\<lparr>doneSignals := (doneSignals p)(c := doneSignals p c + 1)\<rparr>)
      else p\<lparr>outputQueue := outputQueue p @ [\<lparr>msg = m, doneChan = done, encoding = enc\<rparr>]\<rparr>)"

definition QueueMessage :: "Peer \<Rightarrow> Message \<Rightarrow> nat option \<Rightarrow> Peer" where
  "QueueMessage p m done = QueueMessageWithEncoding p m done BaseEncoding"

definition AddKnownInventory :: "Peer \<Rightarrow> InvVect \<Rightarrow> Peer" where
  "AddKnownInventory p invVect = p\<lparr>knownInventory := Add (knownInventory p) invVect\<rparr>"

definition QueueInventory :: "Peer \<Rightarrow> InvVect \<Rightarrow> Peer" where
  "QueueInventory p invVect =
     (if Exists (knownInventory p) invVect then p
      else if \<not> Connected p then p
      else p\<lparr>outputInvChan := outputInvChan p @ [invVect]\<rparr>)"

subsection \<open>Creating a peer\<close>

text \<open>
  Modelled from the spec: the protocol versions that sections 4.3, 4.9 and 6 name
  (\<^verbatim>\<open>wire.BIP0031Version\<close>, \<^verbatim>\<open>wire.RejectVersion\<close>, \<^verbatim>\<open>wire.FeeFilterVersion\<close>), with
  the values the Bitcoin protocol of section 6 gives them; package wire is not under
  \<^verbatim>\<open>src/\<close>.
\<close>

definition BIP0031Version :: "32 word" where
  "BIP0031Version = 60000"

definition RejectVersion :: "32 word" where
  "RejectVersion = 70002"

definition FeeFilterVersion :: "32 word" where
  "FeeFilterVersion = 70013"

definition MaxProtocolVersion :: "32 word" where
  "MaxProtocolVersion = FeeFilterVersion"

definition MinAcceptableProtocolVersion :: "32 word" where
  "MinAcceptableProtocolVersion = 1"

definition maxInvTrickleSize :: nat where
  "maxInvTrickleSize = 5000"

definition maxKnownInventory :: nat where
  "maxKnownInventory = 30000"

text \<open>\<^verbatim>\<open>Config\<close>, the two fields \<^verbatim>\<open>newPeerBase\<close> copies into the peer (\<^verbatim>\<open>Services\<close> and
  \<^verbatim>\<open>ProtocolVersion\<close>; the prefix keeps them apart from the fields of the version
  message). The listeners are arguments of the functions that call them.\<close>

record Config =
  cfgServices :: "64 word"
  cfgProtocolVersion :: "32 word"

definition minUint32 :: "32 word \<Rightarrow> 32 word \<Rightarrow> 32 word" where
  "minUint32 a b = (if a < b then a else b)"

text \<open>\<^verbatim>\<open>newPeerBase\<close>: every field it does not name has the zero value of its type.\<close>

definition newPeerBase :: "Config \<Rightarrow> bool \<Rightarrow> Peer" where
  "newPeerBase origCfg inb =
     (let cfg = (if cfgProtocolVersion origCfg = 0
                 then origCfg\<lparr>cfgProtocolVersion := MaxProtocolVersion\<rparr> else origCfg)
      in \<lparr>bytesReceived = 0, bytesSent = 0, lastRecv = 0, lastSend = 0,
          connected = 0, disconnect = 0,
          conn = \<lparr>written = [], closed = 0\<rparr>,
          Nonce = 0, inbound = inb, peer_id = 0, userAgent = [],
          services = cfgServices cfg, versionKnown = False,
          advertisedProtoVer = 0, protocolVersion = cfgProtocolVersion cfg,
          sendHeadersPreferred = False, verAckReceived = False,
          knownInventory = newMruInventoryMap maxKnownInventory,
          prevGetBlocksBegin = None, prevGetBlocksStop = None,
          timeOffset = 0, startingHeight = 0, lastBlock = 0,
          lastPingNonce = 0, lastPingTime = 0, lastPingMicros = 0,
          stallControl = [], outputQueue = [], sendQueue = [], outputInvChan = [],
          inQuit = 0, quit = 0, doneSignals = (\<lambda>c. 0), nextChan = 0\<rparr>)"

subsection \<open>Pushing addresses\<close>

text \<open>Modelled from the spec: \<^verbatim>\<open>wire.MaxAddrPerMsg\<close> (section 4.8, MAX_ADDR_PER_MSG is
  1000).\<close>

definition MaxAddrPerMsg :: nat where
  "MaxAddrPerMsg = 1000"

text \<open>
  The shuffle loop of \<^verbatim>\<open>PushAddrMsg\<close>, \<open>k\<close> rounds from index \<open>i\<close>. \<open>Intn i n\<close> is what
  \<^verbatim>\<open>rand.Intn(n)\<close> returns in round \<open>i\<close>; \<^verbatim>\<open>math/rand\<close> returns a number below \<open>n\<close>,
  which the theorems assume of \<open>Intn\<close>.
\<close>

fun shuffle :: "(nat \<Rightarrow> nat \<Rightarrow> nat) \<Rightarrow> nat \<Rightarrow> nat \<Rightarrow> 'a list \<Rightarrow> 'a list" where
  "shuffle Intn 0 i AddrList = AddrList"
| "shuffle Intn (Suc k) i AddrList =
     (let j = i + Intn i (length AddrList - i)
      in shuffle Intn k (Suc i) (AddrList[i := AddrList ! j, j := AddrList ! i]))"

text \<open>\<^verbatim>\<open>PushAddrMsg\<close> returns the peer and the addresses sent; its error is always
  nil.\<close>

definition PushAddrMsg ::
  "(nat \<Rightarrow> nat \<Rightarrow> nat) \<Rightarrow> Peer \<Rightarrow> NetAddress list \<Rightarrow> Peer \<times> NetAddress list" where
  "PushAddrMsg Intn p addresses =
     (let addressCount = length addresses in
      if addressCount = 0 then (p, [])
      else
        (let AddrList =
               (if addressCount > MaxAddrPerMsg
                then take MaxAddrPerMsg (shuffle Intn MaxAddrPerMsg 0 addresses)
                else addresses)
         in (QueueMessage p (MAddr AddrList) None, AddrList)))"

subsection \<open>Pushing a getblocks request\<close>

datatype error =
    EOF
  | MessageError string string
  | ErrorString string
  | NilPointerDereference

text \<open>
  Modelled from the spec: \<^verbatim>\<open>wire.MaxBlockLocatorsPerMsg\<close>. Section 4.1 bounds the
  payload of getheaders by 4 + MaxVarIntPayload + 2000 * 32 + 32, which
  \<^verbatim>\<open>MsgGetHeaders.MaxPayloadLength\<close> (\<^verbatim>\<open>src/unnamed/part_004\<close>) computes as
  4 + MaxVarIntPayload + MaxBlockLocatorsPerMsg * HashSize + HashSize.
\<close>

definition MaxBlockLocatorsPerMsg :: nat where
  "MaxBlockLocatorsPerMsg = 2000"

text \<open>
  \<^verbatim>\<open>AddBlockLocatorHash\<close>, on the list of locator hashes of the message. The source
  under \<^verbatim>\<open>src/\<close> is the method of \<^verbatim>\<open>MsgGetHeaders\<close>; the method of \<^verbatim>\<open>MsgGetBlocks\<close>
  that \<^verbatim>\<open>PushGetBlocksMsg\<close> calls is taken to be the same.
\<close>

definition AddBlockLocatorHash ::
  "Hash option list \<Rightarrow> Hash option \<Rightarrow> error + Hash option list" where
  "AddBlockLocatorHash BlockLocatorHashes hash =
     (if length BlockLocatorHashes + 1 > MaxBlockLocatorsPerMsg
      then Inl (MessageError ''MsgGetHeaders.AddBlockLocatorHash''
                  ''too many block locator hashes for message [max 2000]'')
      else Inr (BlockLocatorHashes @ [hash]))"

text \<open>The loop \<^verbatim>\<open>for _, hash := range locator\<close>, which returns at the first error.\<close>

fun addLocatorHashes :: "Hash option list \<Rightarrow> Hash option list \<Rightarrow> error + Hash option list" where
  "addLocatorHashes hs [] = Inr hs"
| "addLocatorHashes hs (hash # locator) =
     (case AddBlockLocatorHash hs hash of
        Inl e \<Rightarrow> Inl e
      | Inr hs' \<Rightarrow> addLocatorHashes hs' locator)"

text \<open>Modelled from the spec: \<^verbatim>\<open>chainhash.Hash.IsEqual\<close>, equality of two hashes behind
  pointers (two nil pointers are equal, a nil pointer equals no hash).\<close>

definition IsEqual :: "Hash option \<Rightarrow> Hash option \<Rightarrow> bool" where
  "IsEqual hash target = (hash = target)"

text \<open>
  \<^verbatim>\<open>PushGetBlocksMsg\<close>: \<open>Inl e\<close> is the error it returns, the peer untouched; \<open>Inr p'\<close>
  is the return of nil with the peer as it then is. \<^verbatim>\<open>wire.NewMsgGetBlocks(stopHash)\<close>
  reads through the pointer, so a nil stop hash that is not filtered as a duplicate
  panics.
\<close>

definition PushGetBlocksMsg :: "Peer \<Rightarrow> Hash option list \<Rightarrow> Hash option \<Rightarrow> error + Peer" where
  "PushGetBlocksMsg p locator stopHash =
     (let beginHash = (if length locator > 0 then locator ! 0 else None);
          isDuplicate = (prevGetBlocksStop p \<noteq> None \<and> prevGetBlocksBegin p \<noteq> None
                         \<and> beginHash \<noteq> None \<and> IsEqual stopHash (prevGetBlocksStop p)
                         \<and> IsEqual beginHash (prevGetBlocksBegin p))
      in if isDuplicate then Inr p
         else
           (case stopHash of
              None \<Rightarrow> Inl NilPointerDereference
            | Some stop \<Rightarrow>
                (case addLocatorHashes [] locator of
                   Inl e \<Rightarrow> Inl e
                 | Inr hs \<Rightarrow>
                     Inr ((QueueMessage p (MGetBlocks hs stop) None)
                            \<lparr>prevGetBlocksBegin := beginHash,
                             prevGetBlocksStop := stopHash\<rparr>))))"

subsection \<open>Pushing a reject\<close>

text \<open>
  \<^verbatim>\<open>PushRejectMsg\<close>. With \<open>wait\<close> the function makes a done channel, queues the
  message with it and then blocks until a value arrives on the channel; the model ends
  where it starts to wait.
\<close>

definition PushRejectMsg ::
  "Peer \<Rightarrow> string \<Rightarrow> RejectCode \<Rightarrow> string \<Rightarrow> Hash option \<Rightarrow> bool \<Rightarrow> Peer" where
  "PushRejectMsg p cmd code reason hash wait =
     (if versionKnown p \<and> protocolVersion p < RejectVersion then p
      else
        (let m0 = NewMsgReject cmd code reason;
             m = (if cmd = CmdTx \<or> cmd = CmdBlock
                  then m0\<lparr>RejectHash := (case hash of None \<Rightarrow> zeroHash | Some h \<Rightarrow> h)\<rparr>
                  else m0)
         in if \<not> wait then QueueMessage p (MReject m) None
            else
              (let c = nextChan p
               in QueueMessage (p\<lparr>nextChan := c + 1\<rparr>) (MReject m) (Some c))))"

subsection \<open>Values for the examples\<close>

text \<open>A peer as \<^verbatim>\<open>NewOutboundPeer\<close> makes it from a configuration that names no
  protocol version, and the same peer once \<^verbatim>\<open>AssociateConnection\<close> has set its
  \<^verbatim>\<open>connected\<close> flag.\<close>

definition freshPeer :: Peer where
  "freshPeer = newPeerBase \<lparr>cfgServices = 0, cfgProtocolVersion = 0\<rparr> False"

definition livePeer :: Peer where
  "livePeer = freshPeer\<lparr>connected := 1\<rparr>"

text \<open>What \<open>n\<close> calls of \<^verbatim>\<open>Disconnect\<close> make of a peer whose counter was 0, as long as
  the counter has not wrapped.\<close>

definition disconnected :: "Peer \<Rightarrow> nat \<Rightarrow> Peer" where
  "disconnected p n =
     p\<lparr>disconnect := of_nat n,
       conn := (if connected p \<noteq> 0 then (conn p)\<lparr>closed := closed (conn p) + 1\<rparr> else conn p),
       quit := quit p + 1\<rparr>"

text \<open>An address for the examples.\<close>

definition addrA :: NetAddress where "addrA = \<lparr>IP = [127, 0, 0, 1], Port = 11047\<rparr>"


text \<open>Two hashes for the examples, and the error of a getblocks message that is full.\<close>

definition hashA :: Hash where "hashA = replicate 32 1"
definition hashB :: Hash where "hashB = replicate 32 2"

definition tooManyLocators :: error where
  "tooManyLocators = MessageError ''MsgGetHeaders.AddBlockLocatorHash''
                  ''too many block locator hashes for message [max 2000]''"


section \<open>The handshake\<close>

text \<open>
  The process-wide variables of the package. Modelled from the spec: \<^verbatim>\<open>SentNonces\<close>
  (section 3, the registry of the nonces sent in version messages, a bounded set of
  \<^verbatim>\<open>uint64\<close>); \<^verbatim>\<open>readRemoteVersionMsg\<close> only asks whether a nonce is in it.
\<close>

record Globals =
  nodeCount :: "32 word"
  SentNonces :: "64 word list"
  AllowSelfConns :: bool

text \<open>
  \<^verbatim>\<open>readMessage\<close>: \<open>rd\<close> is what \<^verbatim>\<open>wire.ReadMessageWithEncodingN\<close> returns for the
  connection, the number of bytes read and the error or the message. The \<^verbatim>\<open>OnRead\<close>
  and \<^verbatim>\<open>OnWrite\<close> listeners only watch and are left out.
\<close>

definition readMessage :: "nat \<times> (error + Message) \<Rightarrow> Peer \<Rightarrow> Peer \<times> (error + Message)" where
  "readMessage rd p = (p\<lparr>bytesReceived := bytesReceived p + of_nat (fst rd)\<rparr>, snd rd)"

text \<open>
  \<^verbatim>\<open>writeMessage\<close>: nothing is written once the \<^verbatim>\<open>disconnect\<close> flag is set. \<open>wr m\<close> is
  what \<^verbatim>\<open>wire.WriteMessageWithEncodingN\<close> returns for \<open>m\<close>, the number of bytes written
  and the error if any. The connection holds \<open>m\<close> as written only when the writer
  returns no error; the bytes are counted in both cases.
\<close>

definition writeMessage ::
  "(Message \<Rightarrow> nat \<times> error option) \<Rightarrow> Peer \<Rightarrow> Message \<Rightarrow> MessageEncoding
     \<Rightarrow> Peer \<times> error option" where
  "writeMessage wr p m enc =
     (if disconnect p \<noteq> 0 then (p, None)
      else (p\<lparr>conn := (if snd (wr m) = None
                        then (conn p)\<lparr>written := written (conn p) @ [m]\<rparr>
                        else conn p),
              bytesSent := bytesSent p + of_nat (fst (wr m))\<rparr>,
            snd (wr m)))"

text \<open>
  The assignments of \<^verbatim>\<open>readRemoteVersionMsg\<close> between the self-connection check and the
  listener: the negotiated flags, the statistics (\<open>now\<close> is \<^verbatim>\<open>time.Now().Unix()\<close>), the
  peer id from \<^verbatim>\<open>atomic.AddInt32(&nodeCount, 1)\<close> and the user agent.
  \<^verbatim>\<open>uint32(msg.ProtocolVersion)\<close> keeps the 32 bits.
\<close>

definition recordVersion :: "64 word \<Rightarrow> Globals \<Rightarrow> Peer \<Rightarrow> MsgVersion \<Rightarrow> Globals \<times> Peer" where
  "recordVersion now g p m =
     (let p1 = p\<lparr>Nonce := VNonce m,
                 advertisedProtoVer := ProtocolVersion m,
                 protocolVersion := minUint32 (protocolVersion p) (ProtocolVersion m),
                 versionKnown := True,
                 services := Services m\<rparr>;
          p2 = p1\<lparr>lastBlock := LastBlock m, startingHeight := LastBlock m,
                  timeOffset := Timestamp m - now\<rparr>;
          g1 = g\<lparr>nodeCount := nodeCount g + 1\<rparr>
      in (g1, p2\<lparr>peer_id := nodeCount g1, userAgent := UserAgent m\<rparr>))"

definition obsoleteReason :: string where
  "obsoleteReason = ''protocol version must be 1 or greater''"

definition firstMessageReason :: string where
  "firstMessageReason = ''a version message must precede all others''"

text \<open>
  \<^verbatim>\<open>readRemoteVersionMsg\<close>. \<open>OnVersion\<close> is \<^verbatim>\<open>p.cfg.Listeners.OnVersion\<close> (\<open>None\<close> when
  nil); the listener sees the peer and the message and answers with a reject or with
  nil. The result is the error, or the message (\<open>None\<close> when the version was already
  known and nothing is read).
\<close>

definition readRemoteVersionMsg ::
  "(Peer \<Rightarrow> MsgVersion \<Rightarrow> MsgReject option) option \<Rightarrow> (Message \<Rightarrow> nat \<times> error option)
     \<Rightarrow> 64 word \<Rightarrow> nat \<times> (error + Message) \<Rightarrow> Globals \<Rightarrow> Peer
     \<Rightarrow> Globals \<times> Peer \<times> (error + MsgVersion option)" where
  "readRemoteVersionMsg OnVersion wr now rd g p =
     (if versionKnown p then (g, p, Inr None)
      else
        (case readMessage rd p of
           (p1, Inl e) \<Rightarrow> (g, p1, Inl e)
         | (p1, Inr (MVersion m)) \<Rightarrow>
             if \<not> AllowSelfConns g \<and> List.member (SentNonces g) (VNonce m)
             then (g, p1, Inl (ErrorString ''disconnecting peer connected to self''))
             else
               (let (g1, p2) = recordVersion now g p1 m in
                case (case OnVersion of None \<Rightarrow> None | Some f \<Rightarrow> f p2 m) of
                  Some rejectMsg \<Rightarrow>
                    (g1, fst (writeMessage wr p2 (MReject rejectMsg) LatestEncoding),
                     Inl (ErrorString (Reason rejectMsg)))
                | None \<Rightarrow>
                    if ProtocolVersion m < MinAcceptableProtocolVersion
                    then (g1,
                          fst (writeMessage wr p2
                                 (MReject (NewMsgReject CmdVersion RejectObsolete obsoleteReason))
                                 LatestEncoding),
                          Inl (ErrorString obsoleteReason))
                    else (g1, p2, Inr (Some m)))
         | (p1, Inr _) \<Rightarrow>
             (g,
              fst (writeMessage wr p1
                     (MReject (NewMsgReject CmdVersion RejectMalformed firstMessageReason))
                     LatestEncoding),
              Inl (ErrorString firstMessageReason))))"

subsection \<open>Negotiating and starting\<close>

text \<open>
  \<^verbatim>\<open>E.Chk\<close> of the logging package (\<^verbatim>\<open>github.com/p9c/log\<close>, not part of this
  repository) logs an error and tells whether there is one.
\<close>

definition Chk :: "error option \<Rightarrow> bool" where
  "Chk e = (e \<noteq> None)"

text \<open>
  Modelled from the spec: \<^verbatim>\<open>SentNonces.Add\<close> (section 3, the registry is a
  most-recently-used set of at most 50 nonces; on insert at capacity the least recently
  used one is evicted). The list holds the most recently used nonce first.
\<close>

definition nonceAdd :: "64 word list \<Rightarrow> 64 word \<Rightarrow> 64 word list" where
  "nonceAdd ns n =
     (if List.member ns n then n # removeAll n ns
      else if length ns + 1 > 50 then n # butlast ns
      else n # ns)"

text \<open>
  What one handshake takes from outside the peer: the \<^verbatim>\<open>OnVersion\<close> listener, the
  outcome of the writer and of the one read of the connection, the clock
  (\<^verbatim>\<open>time.Now().Unix()\<close>) when the remote version is recorded and when the local one is
  built, the configuration \<^verbatim>\<open>p.cfg\<close> (as \<^verbatim>\<open>newPeerBase\<close> stored it), what the
  \<^verbatim>\<open>NewestBlock\<close> callback returns (\<open>None\<close> for a nil callback), the number
  \<^verbatim>\<open>rand.Int63()\<close> returns, the user agent string \<^verbatim>\<open>AddUserAgent\<close> builds, and whether
  \<^verbatim>\<open>negotiateTimeout\<close> (27 s) passes before the negotiation has returned.
\<close>

record Handshake =
  hsOnVersion :: "(Peer \<Rightarrow> MsgVersion \<Rightarrow> MsgReject option) option"
  hsWriter :: "Message \<Rightarrow> nat \<times> error option"
  hsRead :: "nat \<times> (error + Message)"
  hsNow :: "64 word"
  hsLocalNow :: "64 word"
  hsConfig :: Config
  hsNewestBlock :: "(error + 32 word) option"
  hsNonce :: "64 word"
  hsUserAgent :: string
  hsTimedOut :: bool

text \<open>
  \<^verbatim>\<open>localVersionMsg\<close>, as far as the fields of the version message kept here go (the
  two addresses and the relay flag are left out). The nonce goes into \<^verbatim>\<open>SentNonces\<close>.
\<close>

definition localVersionMsg :: "Handshake \<Rightarrow> Globals \<Rightarrow> Globals \<times> (error + MsgVersion)" where
  "localVersionMsg h g =
     (case (case hsNewestBlock h of None \<Rightarrow> Inr 0 | Some r \<Rightarrow> r) of
        Inl e \<Rightarrow> (g, Inl e)
      | Inr blockNum \<Rightarrow>
          (g\<lparr>SentNonces := nonceAdd (SentNonces g) (hsNonce h)\<rparr>,
           Inr \<lparr>ProtocolVersion = cfgProtocolVersion (hsConfig h),
                Services = cfgServices (hsConfig h),
                Timestamp = hsLocalNow h,
                VNonce = hsNonce h,
                UserAgent = hsUserAgent h,
                LastBlock = blockNum\<rparr>))"

definition writeLocalVersionMsg ::
  "Handshake \<Rightarrow> Globals \<Rightarrow> Peer \<Rightarrow> Globals \<times> Peer \<times> (error + MsgVersion option)" where
  "writeLocalVersionMsg h g p =
     (case localVersionMsg h g of
        (g1, Inl e) \<Rightarrow> (g1, p, Inl e)
      | (g1, Inr m) \<Rightarrow>
          (case writeMessage (hsWriter h) p (MVersion m) LatestEncoding of
             (p1, Some e) \<Rightarrow> (g1, p1, Inl e)
           | (p1, None) \<Rightarrow> (g1, p1, Inr (Some m))))"

definition negotiateInboundProtocol ::
  "Handshake \<Rightarrow> Globals \<Rightarrow> Peer \<Rightarrow> Globals \<times> Peer \<times> (error + MsgVersion option)" where
  "negotiateInboundProtocol h g p =
     (case readRemoteVersionMsg (hsOnVersion h) (hsWriter h) (hsNow h) (hsRead h) g p of
        (g1, p1, Inl e) \<Rightarrow> (g1, p1, Inl e)
      | (g1, p1, Inr _) \<Rightarrow> writeLocalVersionMsg h g1 p1)"

definition negotiateOutboundProtocol ::
  "Handshake \<Rightarrow> Globals \<Rightarrow> Peer \<Rightarrow> Globals \<times> Peer \<times> (error + MsgVersion option)" where
  "negotiateOutboundProtocol h g p =
     (case writeLocalVersionMsg h g p of
        (g1, p1, Inl e) \<Rightarrow> (g1, p1, Inl e)
      | (g1, p1, Inr _) \<Rightarrow>
          readRemoteVersionMsg (hsOnVersion h) (hsWriter h) (hsNow h) (hsRead h) g1 p1)"

text \<open>
  \<^verbatim>\<open>start\<close>. The goroutine negotiates and sends on \<^verbatim>\<open>negotiateErr\<close> first its local
  \<^verbatim>\<open>ee\<close> if \<^verbatim>\<open>E.Chk(ee)\<close>, then nil; the inbound branch assigns the error of the
  negotiation to \<^verbatim>\<open>ee\<close>, the outbound branch assigns it to \<^verbatim>\<open>e\<close> and leaves \<^verbatim>\<open>ee\<close> nil.
  \<^verbatim>\<open>select\<close> takes the first value sent, unless the timeout comes first; with the
  timeout the model takes the peer as the negotiation has not touched it yet. The result
  is the error that \<^verbatim>\<open>start\<close> returns and whether the five handlers were started.
  What is sent on \<^verbatim>\<open>msgChan\<close> is not modelled.
\<close>

definition start :: "Handshake \<Rightarrow> Globals \<Rightarrow> Peer \<Rightarrow> Globals \<times> Peer \<times> error option \<times> bool" where
  "start h g p =
     (if hsTimedOut h
      then (g, Disconnect p, Some (ErrorString ''protocol negotiation timeout''), False)
      else
        (case (if inbound p then negotiateInboundProtocol h g p
               else negotiateOutboundProtocol h g p) of
           (g1, p1, r) \<Rightarrow>
             (let ee = (if inbound p then (case r of Inl e \<Rightarrow> Some e | Inr _ \<Rightarrow> None)
                        else None);
                  negotiateErr = (if Chk ee then ee else None)
              in case negotiateErr of
                   Some e \<Rightarrow> (g1, Disconnect p1, Some e, False)
                 | None \<Rightarrow> (g1, QueueMessage p1 MVerAck None, None, True))))"

section \<open>The input handler\<close>

text \<open>\<^verbatim>\<open>handlePingMsg\<close> and \<^verbatim>\<open>handlePongMsg\<close>; \<open>nowNs\<close> is the clock in nanoseconds, and
  the division by 1000 rounds towards zero as Go's does.\<close>

definition handlePingMsg :: "Peer \<Rightarrow> 64 word \<Rightarrow> Peer" where
  "handlePingMsg p nonce =
     (if protocolVersion p > BIP0031Version then QueueMessage p (MPong nonce) None else p)"

definition handlePongMsg :: "int \<Rightarrow> Peer \<Rightarrow> 64 word \<Rightarrow> Peer" where
  "handlePongMsg nowNs p nonce =
     (if protocolVersion p > BIP0031Version then
        (if lastPingNonce p \<noteq> 0 \<and> nonce = lastPingNonce p then
           (let d = nowNs - lastPingTime p
            in p\<lparr>lastPingMicros := (if d < 0 then - ((- d) div 1000) else d div 1000),
                 lastPingNonce := 0\<rparr>)
         else p)
      else p)"

datatype loopCtl = Continue | Break

text \<open>
  One round of the loop of \<^verbatim>\<open>inHandler\<close> from the point where a message \<open>rMsg\<close> has
  been read: the last-receive time (\<open>nowUnix\<close> is \<^verbatim>\<open>time.Now().Unix()\<close>), the two
  signals to the stall handler, the type switch, and the handler-done signal.
  \<open>listener m\<close> is the listener of the configuration for the type of \<open>m\<close> (\<open>None\<close> when
  nil or when the type has none), as what it does to the peer. \<open>Break\<close> is
  \<^verbatim>\<open>break out\<close>. The idle timer is not modelled.
\<close>

definition inHandler_message ::
  "(Message \<Rightarrow> (Peer \<Rightarrow> Peer) option) \<Rightarrow> 64 word \<Rightarrow> int \<Rightarrow> Peer \<Rightarrow> Message
     \<Rightarrow> loopCtl \<times> Peer" where
  "inHandler_message listener nowUnix nowNs p rMsg =
     (let p1 = p\<lparr>lastRecv := nowUnix\<rparr>;
          p2 = p1\<lparr>stallControl := stallControl p1 @
                  [\<lparr>command = sccReceiveMessage, message = rMsg\<rparr>,
                   \<lparr>command = sccHandlerStart, message = rMsg\<rparr>]\<rparr>;
          call = (\<lambda>q. case listener rMsg of None \<Rightarrow> q | Some f \<Rightarrow> f q);
          finish = (\<lambda>q. (Continue,
                     q\<lparr>stallControl := stallControl q @
                         [\<lparr>command = sccHandlerDone, message = rMsg\<rparr>]\<rparr>))
      in case rMsg of
           MVersion m \<Rightarrow>
             (Break, PushRejectMsg p2 CmdVersion RejectDuplicate
                       ''duplicate version message'' None True)
         | MVerAck \<Rightarrow>
             if \<not> verAckReceived p2 then finish (call (p2\<lparr>verAckReceived := True\<rparr>))
             else finish p2
         | MPing nonce \<Rightarrow> finish (call (handlePingMsg p2 nonce))
         | MPong nonce \<Rightarrow> finish (call (handlePongMsg nowNs p2 nonce))
         | MSendHeaders \<Rightarrow> finish (call (p2\<lparr>sendHeadersPreferred := True\<rparr>))
         | _ \<Rightarrow> finish (call p2))"

text \<open>What \<^verbatim>\<open>inHandler\<close> does once the loop has ended.\<close>

definition inHandler_exit :: "Peer \<Rightarrow> Peer" where
  "inHandler_exit p = (let p1 = Disconnect p in p1\<lparr>inQuit := inQuit p1 + 1\<rparr>)"

subsection \<open>Values for the examples of the handshake\<close>

text \<open>Two version messages, a reject a listener may return, the process-wide variables at
  start, and a connection that writes every message in full.\<close>

definition versionZero :: MsgVersion where
  "versionZero = \<lparr>ProtocolVersion = 0, Services = 1, Timestamp = 1600000000, VNonce = 42,
                   UserAgent = ''/old:0.1/'', LastBlock = 100\<rparr>"

definition versionNew :: MsgVersion where
  "versionNew = \<lparr>ProtocolVersion = 70002, Services = 1, Timestamp = 1600000000, VNonce = 42,
                  UserAgent = ''/pod:1.0/'', LastBlock = 100\<rparr>"

definition bannedReject :: MsgReject where
  "bannedReject = NewMsgReject CmdVersion RejectNonstandard ''banned''"

definition noGlobals :: Globals where
  "noGlobals = \<lparr>nodeCount = 0, SentNonces = [], AllowSelfConns = False\<rparr>"

definition wroteAll :: "Message \<Rightarrow> nat \<times> error option" where
  "wroteAll m = (24, None)"


text \<open>An inbound peer with its connection associated, and a handshake in which the remote
  peer sends the version message of protocol version 0 in time and no listener is set.\<close>

definition inboundPeer :: Peer where
  "inboundPeer = (newPeerBase \<lparr>cfgServices = 0, cfgProtocolVersion = 0\<rparr> True)\<lparr>connected := 1\<rparr>"

definition obsoleteHandshake :: Handshake where
  "obsoleteHandshake =
     \<lparr>hsOnVersion = None, hsWriter = wroteAll, hsRead = (120, Inr (MVersion versionZero)),
      hsNow = 1600000100, hsLocalNow = 1600000100,
      hsConfig = \<lparr>cfgServices = 0, cfgProtocolVersion = 70013\<rparr>,
      hsNewestBlock = None, hsNonce = 7, hsUserAgent = ''/pod:1.0/'', hsTimedOut = False\<rparr>"

subsection \<open>Values for the examples of the input handler\<close>

text \<open>The reject of a second version message, and two connected peers after the handshake,
  one that negotiated a version older than the reject message and one that did not.\<close>

definition duplicateVersionReject :: MsgReject where
  "duplicateVersionReject =
     \<lparr>Cmd = CmdVersion, RejectCode = RejectDuplicate, Reason = ''duplicate version message'',
      RejectHash = zeroHash\<rparr>"

definition oldPeer :: Peer where
  "oldPeer = livePeer\<lparr>versionKnown := True, verAckReceived := True, protocolVersion := 60002\<rparr>"

definition newPeer :: Peer where
  "newPeer = livePeer\<lparr>versionKnown := True, verAckReceived := True, protocolVersion := 70013\<rparr>"


section \<open>The queue handler\<close>

text \<open>
  Modelled from the spec: \<^verbatim>\<open>wire.MaxInvPerMsg\<close> and \<^verbatim>\<open>MsgInv.AddInvVect\<close> (section 4.1,
  the codec bounds every message; 50000 is the bound of the Bitcoin protocol of section
  6 for inv). \<^verbatim>\<open>AddInvVect\<close> appends unless the message is full; \<^verbatim>\<open>queueHandler\<close> only
  logs the error it returns then.
\<close>

definition MaxInvPerMsg :: nat where
  "MaxInvPerMsg = 50000"

definition AddInvVect :: "InvVect list \<Rightarrow> InvVect \<Rightarrow> InvVect list" where
  "AddInvVect InvList iv =
     (if length InvList + 1 > MaxInvPerMsg then InvList else InvList @ [iv])"

text \<open>The local variables of \<^verbatim>\<open>queueHandler\<close>: the two lists and the flag.\<close>

record queueState =
  pendingMsgs :: "outMsg list"
  invSendQueue :: "InvVect list"
  waiting :: bool

text \<open>\<^verbatim>\<open>outMsg{msg: invMsg}\<close>.\<close>

definition invPacket :: "InvVect list \<Rightarrow> outMsg" where
  "invPacket InvList = \<lparr>msg = MInv InvList, doneChan = None, encoding = EncodingZero\<rparr>"

text \<open>The closure \<^verbatim>\<open>queuePacket\<close>, together with the assignment of its result to
  \<^verbatim>\<open>waiting\<close>.\<close>

definition queuePacket :: "outMsg \<Rightarrow> Peer \<times> queueState \<Rightarrow> Peer \<times> queueState" where
  "queuePacket m st =
     (case st of (p, q) \<Rightarrow>
        if \<not> waiting q then (p\<lparr>sendQueue := sendQueue p @ [m]\<rparr>, q\<lparr>waiting := True\<rparr>)
        else (p, q\<lparr>pendingMsgs := pendingMsgs q @ [m], waiting := True\<rparr>))"

text \<open>
  The loop of the trickle tick over the inventory send queue: the first argument is
  what is left of the queue, the second the \<^verbatim>\<open>InvList\<close> of the message being filled.
\<close>

fun trickleLoop ::
  "InvVect list \<Rightarrow> InvVect list \<Rightarrow> Peer \<times> queueState \<Rightarrow> InvVect list \<times> (Peer \<times> queueState)" where
  "trickleLoop [] InvList st = (InvList, st)"
| "trickleLoop (iv # rest) InvList st =
     (if Exists (knownInventory (fst st)) iv then trickleLoop rest InvList st
      else
        (let InvList1 = AddInvVect InvList iv;
             full = (length InvList1 \<ge> maxInvTrickleSize);
             st1 = (if full then queuePacket (invPacket InvList1) st else st);
             InvList2 = (if full then [] else InvList1);
             st2 = (AddKnownInventory (fst st1) iv, snd st1)
         in trickleLoop rest InvList2 st2))"

text \<open>
  The cases of the \<^verbatim>\<open>select\<close> of \<^verbatim>\<open>queueHandler\<close> other than \<^verbatim>\<open>quit\<close>. A receive from
  an empty channel is not enabled and leaves everything as it is; \<open>SendDone\<close> is the
  signal of \<^verbatim>\<open>outHandler\<close> on \<^verbatim>\<open>sendDoneQueue\<close>.
\<close>

datatype queueEvent = RecvOutputQueue | SendDone | RecvOutputInv | TrickleTick

definition queueHandler_select :: "queueEvent \<Rightarrow> Peer \<times> queueState \<Rightarrow> Peer \<times> queueState" where
  "queueHandler_select ev st =
     (case st of (p, q) \<Rightarrow>
        (case ev of
           RecvOutputQueue \<Rightarrow>
             (case outputQueue p of
                [] \<Rightarrow> st
              | m # rest \<Rightarrow> queuePacket m (p\<lparr>outputQueue := rest\<rparr>, q))
         | SendDone \<Rightarrow>
             (case pendingMsgs q of
                [] \<Rightarrow> (p, q\<lparr>waiting := False\<rparr>)
              | next # rest \<Rightarrow> (p\<lparr>sendQueue := sendQueue p @ [next]\<rparr>, q\<lparr>pendingMsgs := rest\<rparr>))
         | RecvOutputInv \<Rightarrow>
             (case outputInvChan p of
                [] \<Rightarrow> st
              | iv # rest \<Rightarrow>
                  (let p1 = p\<lparr>outputInvChan := rest\<rparr> in
                   if versionKnown p1 then
                     (if Type iv = InvTypeBlock \<or> Type iv = InvTypeWitnessBlock
                      then queuePacket (invPacket (AddInvVect [] iv)) (p1, q)
                      else (p1, q\<lparr>invSendQueue := invSendQueue q @ [iv]\<rparr>))
                   else (p1, q)))
         | TrickleTick \<Rightarrow>
             if disconnect p \<noteq> 0 \<or> length (invSendQueue q) = 0 then st
             else
               (case trickleLoop (invSendQueue q) [] (p, q\<lparr>invSendQueue := []\<rparr>) of
                  (InvList, st1) \<Rightarrow>
                    if length InvList > 0 then queuePacket (invPacket InvList) st1 else st1)))"

subsection \<open>What a trickle tick is meant to send\<close>

text \<open>
  The vectors of the send queue that pass the late check against the known inventory
  \<open>K\<close>, each being added to it when it passes; and a list cut into pieces of \<open>n\<close>, the
  last one holding the rest.
\<close>

fun trickleSent :: "mruInventoryMap \<Rightarrow> InvVect list \<Rightarrow> InvVect list" where
  "trickleSent K [] = []"
| "trickleSent K (iv # rest) =
     (if Exists K iv then trickleSent K rest else iv # trickleSent (Add K iv) rest)"

fun chunks :: "nat \<Rightarrow> 'a list \<Rightarrow> 'a list list" where
  "chunks n xs =
     (if xs = [] then [] else if n = 0 then [xs] else take n xs # chunks n (drop n xs))"

subsection \<open>Calls and events on one peer\<close>

text \<open>
  A run of one peer: calls of its exported methods from outside and events of
  \<^verbatim>\<open>queueHandler\<close>, applied to the peer and the local variables of the handler.
\<close>

datatype peerEvent =
    CallQueueInventory InvVect
  | CallAddKnownInventory InvVect
  | CallQueueMessage Message "nat option"
  | CallDisconnect
  | Handler queueEvent

fun peerStep :: "peerEvent \<Rightarrow> Peer \<times> queueState \<Rightarrow> Peer \<times> queueState" where
  "peerStep (CallQueueInventory iv) (p, q) = (QueueInventory p iv, q)"
| "peerStep (CallAddKnownInventory iv) (p, q) = (AddKnownInventory p iv, q)"
| "peerStep (CallQueueMessage m d) (p, q) = (QueueMessage p m d, q)"
| "peerStep CallDisconnect (p, q) = (Disconnect p, q)"
| "peerStep (Handler ev) (p, q) = queueHandler_select ev (p, q)"

text \<open>The inventory vectors that the handler has passed on towards the connection so
  far, in inv messages on the send queue or waiting in \<^verbatim>\<open>pendingMsgs\<close>.\<close>

definition invsOf :: "outMsg \<Rightarrow> InvVect list" where
  "invsOf m = (case msg m of MInv l \<Rightarrow> l | _ \<Rightarrow> [])"

definition emitted :: "Peer \<times> queueState \<Rightarrow> InvVect list" where
  "emitted st = concat (map invsOf (sendQueue (fst st) @ pendingMsgs (snd st)))"

definition isInv :: "Message \<Rightarrow> bool" where
  "isInv m = (case m of MInv l \<Rightarrow> True | _ \<Rightarrow> False)"

definition directInv :: "peerEvent \<Rightarrow> bool" where
  "directInv e = (case e of CallQueueMessage m d \<Rightarrow> isInv m | _ \<Rightarrow> False)"

subsection \<open>Values for the examples of the queue handler\<close>

text \<open>A block vector and a transaction vector, a connected peer whose version is known,
  the handler's variables at its start, and 5001 transaction vectors with different
  hashes.\<close>

definition blockA :: InvVect where
  "blockA = \<lparr>Type = InvTypeBlock, Hash = hashA\<rparr>"

definition txA :: InvVect where
  "txA = \<lparr>Type = InvTypeTx, Hash = hashA\<rparr>"

definition knownPeer :: Peer where
  "knownPeer = livePeer\<lparr>versionKnown := True\<rparr>"

definition queueStart :: queueState where
  "queueStart = \<lparr>pendingMsgs = [], invSendQueue = [], waiting = False\<rparr>"

definition txN :: "nat \<Rightarrow> InvVect" where
  "txN n = \<lparr>Type = InvTypeTx, Hash = replicate 30 0 @ [of_nat (n div 256), of_nat (n mod 256)]\<rparr>"

definition manyTx :: "InvVect list" where
  "manyTx = map txN [0..<5001]"

section \<open>Stall deadlines\<close>

lemma getdata_deadlines:
  "maybeAddDeadline now now2 pr CmdGetData =
     pr(CmdBlock \<mapsto> now + 360 * Second, CmdMerkleBlock \<mapsto> now + 360 * Second,
        CmdTx \<mapsto> now + 360 * Second, CmdNotFound \<mapsto> now + 360 * Second)"
  by (simp add: maybeAddDeadline_def stallResponseTimeout_def Cmd_defs Let_def)

lemma getheaders_deadline:
  "maybeAddDeadline now now2 pr CmdGetHeaders = pr(CmdHeaders \<mapsto> now2 + 1080 * Second)"
  by (simp add: maybeAddDeadline_def stallResponseTimeout_def Cmd_defs Let_def)

lemma receive_group:
  assumes "c = CmdBlock \<or> c = CmdMerkleBlock \<or> c = CmdTx \<or> c = CmdNotFound"
  shows "pendingResponses
           (stallHandler_control now now2 s \<lparr>command = sccReceiveMessage, message = MOther c\<rparr>)
         = (pendingResponses s)(CmdBlock := None, CmdMerkleBlock := None,
              CmdTx := None, CmdNotFound := None)"
  using assms by (auto simp add: stallHandler_control_def)

text \<open>
  Claim C3. In the stall handler, the send of a getdata message sets the pending deadline
  of each of block, merkleblock, tx and notfound to the clock reading plus 360 seconds;
  the send of a getheaders message sets the deadline of headers to the clock reading plus
  1080 seconds; and the receipt of any one of block, merkleblock, tx or notfound removes
  all four entries at once (every other entry is left as it was).
\<close>

theorem stall_deadlines:
  "pendingResponses (stallHandler_control now now2 s
       \<lparr>command = sccSendMessage, message = MOther CmdGetData\<rparr>) =
     (pendingResponses s)(CmdBlock \<mapsto> now + 360 * Second,
        CmdMerkleBlock \<mapsto> now + 360 * Second, CmdTx \<mapsto> now + 360 * Second,
        CmdNotFound \<mapsto> now + 360 * Second)
   \<and> pendingResponses (stallHandler_control now now2 s
       \<lparr>command = sccSendMessage, message = MOther CmdGetHeaders\<rparr>) =
     (pendingResponses s)(CmdHeaders \<mapsto> now2 + 1080 * Second)
   \<and> list_all
       (\<lambda>c. pendingResponses (stallHandler_control now now2 s
              \<lparr>command = sccReceiveMessage, message = MOther c\<rparr>) =
            (pendingResponses s)(CmdBlock := None, CmdMerkleBlock := None,
               CmdTx := None, CmdNotFound := None))
       [CmdBlock, CmdMerkleBlock, CmdTx, CmdNotFound]"
  by (simp add: stallHandler_control_def getdata_deadlines getheaders_deadline)

section \<open>Queueing on a peer that is not connected\<close>

text \<open>
  Claim C10. When \<^verbatim>\<open>QueueMessage\<close> or \<^verbatim>\<open>QueueMessageWithEncoding\<close> is called on a
  peer that is not connected (its \<^verbatim>\<open>connected\<close> flag is 0, or its \<^verbatim>\<open>disconnect\<close> flag
  is set), the message is not put on the output queue, nothing reaches the send queue
  or the connection, and a done channel, when the caller gave one, gets exactly one
  value (no other channel gets any).
\<close>

theorem queue_message_dead_peer:
  assumes "connected p = 0 \<or> disconnect p \<noteq> 0"
  shows "outputQueue (QueueMessageWithEncoding p m done enc) = outputQueue p
       \<and> sendQueue (QueueMessageWithEncoding p m done enc) = sendQueue p
       \<and> conn (QueueMessageWithEncoding p m done enc) = conn p
       \<and> doneSignals (QueueMessageWithEncoding p m done enc) =
           (case done of None \<Rightarrow> doneSignals p
            | Some c \<Rightarrow> (doneSignals p)(c := doneSignals p c + 1))
       \<and> QueueMessage p m done = QueueMessageWithEncoding p m done BaseEncoding"
  using assms
  by (auto simp add: QueueMessageWithEncoding_def QueueMessage_def Connected_def
      split: option.splits)

theorem queue_message_dead_peer_witness:
  "connected freshPeer = 0
   \<and> outputQueue (QueueMessageWithEncoding freshPeer MVerAck (Some 7) BaseEncoding) = []
   \<and> doneSignals (QueueMessageWithEncoding freshPeer MVerAck (Some 7) BaseEncoding) 7 = 1
   \<and> doneSignals (QueueMessageWithEncoding freshPeer MVerAck (Some 7) BaseEncoding) 8 = 0"
proof -
  have h: "connected freshPeer = 0 \<or> disconnect freshPeer \<noteq> 0"
    by (simp add: freshPeer_def newPeerBase_def)
  from queue_message_dead_peer [OF h, of MVerAck "Some 7" BaseEncoding]
  show ?thesis by (simp add: freshPeer_def newPeerBase_def)
qed

section \<open>Disconnecting more than once\<close>

lemma of_nat_32_neq_1:
  assumes "2 \<le> n" "n \<le> 4294967296"
  shows "(of_nat n :: 32 word) \<noteq> 1"
proof
  assume "(of_nat n :: 32 word) = 1"
  then have "unat (of_nat n :: 32 word) = 1" by simp
  then have m: "n mod 4294967296 = 1" by (simp add: unat_of_nat)
  show False
  proof (cases "n = 4294967296")
    case True
    with m show False by simp
  next
    case False
    with assms have "n < 4294967296" by simp
    with m assms show False by simp
  qed
qed

lemma Disconnect_first:
  "disconnect p = 0 \<Longrightarrow> Disconnect p = disconnected p 1"
  by (simp add: Disconnect_def disconnected_def Let_def)

lemma Disconnect_later:
  assumes "1 \<le> n" "n < 4294967296"
  shows "Disconnect (disconnected p n) = disconnected p (Suc n)"
proof -
  have "(of_nat (Suc n) :: 32 word) \<noteq> 1"
    using assms by (intro of_nat_32_neq_1) simp_all
  then have "(of_nat n + 1 :: 32 word) \<noteq> 1" by simp
  then show ?thesis
    by (simp add: Disconnect_def disconnected_def Let_def)
qed

text \<open>Up to \<open>2^32\<close> calls only the first one closes the connection and fires
  \<^verbatim>\<open>quit\<close>; every later one only counts.\<close>

lemma Disconnect_funpow:
  assumes "disconnect p = 0"
  shows "1 \<le> n \<Longrightarrow> n \<le> 4294967296 \<Longrightarrow> (Disconnect ^^ n) p = disconnected p n"
proof (induction n)
  case 0
  then show ?case by simp
next
  case (Suc n)
  show ?case
  proof (cases "n = 0")
    case True
    then show ?thesis using assms by (simp add: Disconnect_first)
  next
    case False
    with Suc have "(Disconnect ^^ n) p = disconnected p n" by simp
    moreover have "Disconnect (disconnected p n) = disconnected p (Suc n)"
      using False Suc.prems by (intro Disconnect_later) simp_all
    ultimately show ?thesis by simp
  qed
qed

lemma disconnected_wrap: "disconnect (disconnected p 4294967296) = 0"
  by (simp add: disconnected_def)

text \<open>
  Claim C9. \<^verbatim>\<open>Disconnect\<close> is meant to be idempotent: whatever the number of calls, the
  flag is set once, and the connection is closed and \<^verbatim>\<open>quit\<close> fired once. The counter
  is an \<^verbatim>\<open>int32\<close> that every call increments, so on a connected peer the call number
  \<open>2^32\<close> brings it back to 0 (the peer reads as connected again) and the next call
  closes the connection and fires \<^verbatim>\<open>quit\<close> a second time.
\<close>

theorem disconnect_counter_wraps:
  "\<not> Connected ((Disconnect ^^ 1) livePeer)
   \<and> Connected ((Disconnect ^^ 4294967296) livePeer)
   \<and> quit ((Disconnect ^^ 4294967296) livePeer) = 1
   \<and> closed (conn ((Disconnect ^^ 4294967296) livePeer)) = 1
   \<and> quit ((Disconnect ^^ 4294967297) livePeer) = 2
   \<and> closed (conn ((Disconnect ^^ 4294967297) livePeer)) = 2"
proof -
  have d0: "disconnect livePeer = 0" and c1: "connected livePeer = 1"
    and q0: "quit livePeer = 0" and cl0: "closed (conn livePeer) = 0"
    by (simp_all add: livePeer_def freshPeer_def newPeerBase_def)
  have one: "(Disconnect ^^ 1) livePeer = disconnected livePeer 1"
    using d0 by (intro Disconnect_funpow) simp_all
  have big: "(Disconnect ^^ 4294967296) livePeer = disconnected livePeer 4294967296"
    using d0 by (intro Disconnect_funpow) simp_all
  have "(Disconnect ^^ 4294967297) livePeer = Disconnect ((Disconnect ^^ 4294967296) livePeer)"
  proof -
    have "(4294967297::nat) = Suc 4294967296" by simp
    then show ?thesis by (simp only: funpow.simps o_apply)
  qed
  also have "\<dots> = disconnected (disconnected livePeer 4294967296) 1"
    unfolding big by (rule Disconnect_first) (rule disconnected_wrap)
  finally have next1: "(Disconnect ^^ 4294967297) livePeer
      = disconnected (disconnected livePeer 4294967296) 1" .
  show ?thesis
    unfolding one big next1
    by (simp add: disconnected_def Connected_def c1 q0 cl0)
qed

section \<open>Pushing addresses\<close>

lemma shuffle_length:
  "length (shuffle Intn k i xs) = length xs"
  by (induction k arbitrary: i xs) (simp_all add: Let_def)

lemma shuffle_mset:
  assumes "\<forall>i n. 0 < n \<longrightarrow> Intn i n < n"
  shows "i + k \<le> length xs \<Longrightarrow> mset (shuffle Intn k i xs) = mset xs"
proof (induction k arbitrary: i xs)
  case 0
  then show ?case by simp
next
  case (Suc k)
  let ?j = "i + Intn i (length xs - i)"
  let ?ys = "xs[i := xs ! ?j, ?j := xs ! i]"
  from Suc.prems have i: "i < length xs" by simp
  then have "Intn i (length xs - i) < length xs - i" using assms by simp
  then have j: "?j < length xs" by simp
  have "mset ?ys = mset xs" using i j by (simp add: mset_swap)
  moreover have "mset (shuffle Intn k (Suc i) ?ys) = mset ?ys"
    using Suc.prems by (intro Suc.IH) simp
  ultimately show ?case by (simp add: Let_def)
qed

lemma mset_take_subset: "mset (take n xs) \<subseteq># mset xs"
proof -
  have "mset xs = mset (take n xs) + mset (drop n xs)"
    by (metis append_take_drop_id mset_append)
  then show ?thesis by simp
qed

text \<open>
  Claim C7. \<^verbatim>\<open>PushAddrMsg\<close> with no address queues nothing and returns the empty list;
  with at most 1000 addresses it hands \<^verbatim>\<open>QueueMessage\<close> one addr message that holds
  exactly the given addresses in their order and returns that list; with more than 1000
  it hands \<^verbatim>\<open>QueueMessage\<close> an addr message of exactly 1000 of the given addresses
  (a sub-multiset of them) and returns those. On a connected peer \<^verbatim>\<open>QueueMessage\<close> puts
  the message at the end of the output queue. \<open>Intn\<close> stands for \<^verbatim>\<open>rand.Intn\<close>, which
  returns a number below its argument.
\<close>

theorem push_addr:
  assumes "\<forall>i n. 0 < n \<longrightarrow> Intn i n < n"
  shows "PushAddrMsg Intn p [] = (p, [])
   \<and> (addresses \<noteq> [] \<and> length addresses \<le> 1000 \<longrightarrow>
        PushAddrMsg Intn p addresses = (QueueMessage p (MAddr addresses) None, addresses))
   \<and> (1000 < length addresses \<longrightarrow>
        (\<exists>sent. PushAddrMsg Intn p addresses = (QueueMessage p (MAddr sent) None, sent)
           \<and> length sent = 1000 \<and> mset sent \<subseteq># mset addresses))
   \<and> (Connected p \<longrightarrow>
        outputQueue (QueueMessage p (MAddr sent') None) =
          outputQueue p @ [\<lparr>msg = MAddr sent', doneChan = None, encoding = BaseEncoding\<rparr>])"
proof (intro conjI impI)
  show "PushAddrMsg Intn p [] = (p, [])" by (simp add: PushAddrMsg_def)
next
  assume "addresses \<noteq> [] \<and> length addresses \<le> 1000"
  then show "PushAddrMsg Intn p addresses = (QueueMessage p (MAddr addresses) None, addresses)"
    by (simp add: PushAddrMsg_def MaxAddrPerMsg_def Let_def)
next
  assume big: "1000 < length addresses"
  let ?sent = "take 1000 (shuffle Intn 1000 0 addresses)"
  have "PushAddrMsg Intn p addresses = (QueueMessage p (MAddr ?sent) None, ?sent)"
    using big by (auto simp add: PushAddrMsg_def MaxAddrPerMsg_def Let_def)
  moreover have "length ?sent = 1000" using big by (simp add: shuffle_length)
  moreover have "mset ?sent \<subseteq># mset addresses"
  proof -
    have "mset (shuffle Intn 1000 0 addresses) = mset addresses"
      using big by (intro shuffle_mset [OF assms]) simp
    then show ?thesis using mset_take_subset [of 1000 "shuffle Intn 1000 0 addresses"] by simp
  qed
  ultimately show "\<exists>sent. PushAddrMsg Intn p addresses = (QueueMessage p (MAddr sent) None, sent)
           \<and> length sent = 1000 \<and> mset sent \<subseteq># mset addresses" by blast
next
  assume "Connected p"
  then show "outputQueue (QueueMessage p (MAddr sent') None) =
          outputQueue p @ [\<lparr>msg = MAddr sent', doneChan = None, encoding = BaseEncoding\<rparr>]"
    by (simp add: QueueMessage_def QueueMessageWithEncoding_def)
qed

theorem push_addr_witness:
  "PushAddrMsg (\<lambda>i n. 0) livePeer [addrA] = (QueueMessage livePeer (MAddr [addrA]) None, [addrA])
   \<and> outputQueue (fst (PushAddrMsg (\<lambda>i n. 0) livePeer [addrA])) =
       [\<lparr>msg = MAddr [addrA], doneChan = None, encoding = BaseEncoding\<rparr>]
   \<and> length (snd (PushAddrMsg (\<lambda>i n. 0) livePeer (replicate 1001 addrA))) = 1000"
proof -
  have h: "\<forall>i n. 0 < n \<longrightarrow> (\<lambda>i n. 0::nat) i n < n" by simp
  have c: "Connected livePeer"
    by (simp add: Connected_def livePeer_def freshPeer_def newPeerBase_def)
  have q: "outputQueue livePeer = []"
    by (simp add: livePeer_def freshPeer_def newPeerBase_def)
  from push_addr [OF h, of livePeer "[addrA]" "[addrA]"] c q
  have a: "PushAddrMsg (\<lambda>i n. 0) livePeer [addrA] = (QueueMessage livePeer (MAddr [addrA]) None, [addrA])"
    and b: "outputQueue (QueueMessage livePeer (MAddr [addrA]) None) =
       [\<lparr>msg = MAddr [addrA], doneChan = None, encoding = BaseEncoding\<rparr>]"
    by simp_all
  from push_addr [OF h, of livePeer "replicate 1001 addrA" "[]"]
  have "length (snd (PushAddrMsg (\<lambda>i n. 0) livePeer (replicate 1001 addrA))) = 1000"
    by auto
  with a b show ?thesis by simp
qed


section \<open>Duplicate getblocks requests\<close>

lemma addLocatorHashes_fits:
  "length hs + length locator \<le> MaxBlockLocatorsPerMsg \<Longrightarrow>
     addLocatorHashes hs locator = Inr (hs @ locator)"
  by (induction locator arbitrary: hs) (simp_all add: AddBlockLocatorHash_def)

lemma addLocatorHashes_too_many:
  "MaxBlockLocatorsPerMsg < length hs + length locator \<Longrightarrow> length hs \<le> MaxBlockLocatorsPerMsg \<Longrightarrow>
     addLocatorHashes hs locator = Inl tooManyLocators"
proof (induction locator arbitrary: hs)
  case Nil
  then show ?case by simp
next
  case (Cons h locator)
  show ?case
  proof (cases "length hs + 1 > MaxBlockLocatorsPerMsg")
    case True
    then show ?thesis by (simp add: AddBlockLocatorHash_def tooManyLocators_def)
  next
    case False
    then have "addLocatorHashes (hs @ [h]) locator = Inl tooManyLocators"
      using Cons.prems by (intro Cons.IH) simp_all
    with False show ?thesis by (simp add: AddBlockLocatorHash_def)
  qed
qed

text \<open>
  Claim C4, as stated: two calls in a row of \<^verbatim>\<open>PushGetBlocksMsg\<close> with the same locator
  head and the same stop hash queue exactly one getblocks message, the first call queueing
  it and the second returning nil. It fails in two ways on a connected peer. A locator
  of 2001 hashes makes \<^verbatim>\<open>AddBlockLocatorHash\<close> fail, so the call returns the error,
  queues nothing and records nothing, and so does the call after it. And when the
  request before the pair was already the same, the first call of the pair is filtered
  as well and the pair queues nothing.
\<close>

theorem push_get_blocks_long_locator:
  "Connected livePeer
   \<and> PushGetBlocksMsg livePeer (replicate 2001 (Some hashA)) (Some hashB) = Inl tooManyLocators
   \<and> PushGetBlocksMsg
        (livePeer\<lparr>prevGetBlocksBegin := Some hashA, prevGetBlocksStop := Some hashB\<rparr>)
        [Some hashA] (Some hashB) =
       Inr (livePeer\<lparr>prevGetBlocksBegin := Some hashA, prevGetBlocksStop := Some hashB\<rparr>)"
proof -
  have "addLocatorHashes [] (replicate 2001 (Some hashA)) = Inl tooManyLocators"
    by (rule addLocatorHashes_too_many) (simp_all add: MaxBlockLocatorsPerMsg_def)
  then have "PushGetBlocksMsg livePeer (replicate 2001 (Some hashA)) (Some hashB) =
      Inl tooManyLocators"
    by (simp add: PushGetBlocksMsg_def Let_def livePeer_def freshPeer_def newPeerBase_def)
  moreover have "Connected livePeer"
    by (simp add: livePeer_def freshPeer_def newPeerBase_def Connected_def)
  moreover have "PushGetBlocksMsg
        (livePeer\<lparr>prevGetBlocksBegin := Some hashA, prevGetBlocksStop := Some hashB\<rparr>)
        [Some hashA] (Some hashB) =
       Inr (livePeer\<lparr>prevGetBlocksBegin := Some hashA, prevGetBlocksStop := Some hashB\<rparr>)"
    by (simp add: PushGetBlocksMsg_def Let_def IsEqual_def)
  ultimately show ?thesis by simp
qed

text \<open>
  Claim C4, amended. For a locator of at most \<^verbatim>\<open>MaxBlockLocatorsPerMsg\<close> hashes whose
  head is a hash \<open>b\<close>, a stop hash \<open>stop\<close>, and a peer whose last recorded getblocks
  request is not already \<open>(b, stop)\<close>: the first call hands \<^verbatim>\<open>QueueMessage\<close> one
  getblocks message (which a connected peer appends to its output queue), records
  \<open>(b, stop)\<close> and returns nil; a second call with the same head and the same stop hash
  returns nil and leaves the peer as it is, so it queues nothing.
\<close>

theorem push_get_blocks_twice:
  assumes "length (Some b # rest) \<le> MaxBlockLocatorsPerMsg"
      and "\<not> (prevGetBlocksBegin p = Some b \<and> prevGetBlocksStop p = Some stop)"
  shows "PushGetBlocksMsg p (Some b # rest) (Some stop) =
           Inr ((QueueMessage p (MGetBlocks (Some b # rest) stop) None)
                  \<lparr>prevGetBlocksBegin := Some b, prevGetBlocksStop := Some stop\<rparr>)
       \<and> PushGetBlocksMsg
           ((QueueMessage p (MGetBlocks (Some b # rest) stop) None)
              \<lparr>prevGetBlocksBegin := Some b, prevGetBlocksStop := Some stop\<rparr>)
           (Some b # rest2) (Some stop) =
           Inr ((QueueMessage p (MGetBlocks (Some b # rest) stop) None)
                  \<lparr>prevGetBlocksBegin := Some b, prevGetBlocksStop := Some stop\<rparr>)
       \<and> (Connected p \<longrightarrow>
           outputQueue ((QueueMessage p (MGetBlocks (Some b # rest) stop) None)
                  \<lparr>prevGetBlocksBegin := Some b, prevGetBlocksStop := Some stop\<rparr>) =
             outputQueue p @ [\<lparr>msg = MGetBlocks (Some b # rest) stop, doneChan = None,
                               encoding = BaseEncoding\<rparr>])"
proof -
  have fits: "addLocatorHashes [] (Some b # rest) = Inr (Some b # rest)"
    using assms(1) addLocatorHashes_fits [of "[]" "Some b # rest"] by simp
  have first: "PushGetBlocksMsg p (Some b # rest) (Some stop) =
           Inr ((QueueMessage p (MGetBlocks (Some b # rest) stop) None)
                  \<lparr>prevGetBlocksBegin := Some b, prevGetBlocksStop := Some stop\<rparr>)"
    using assms(2) fits
    by (auto simp add: PushGetBlocksMsg_def Let_def IsEqual_def simp del: addLocatorHashes.simps)
  have second: "PushGetBlocksMsg
           ((QueueMessage p (MGetBlocks (Some b # rest) stop) None)
              \<lparr>prevGetBlocksBegin := Some b, prevGetBlocksStop := Some stop\<rparr>)
           (Some b # rest2) (Some stop) =
           Inr ((QueueMessage p (MGetBlocks (Some b # rest) stop) None)
                  \<lparr>prevGetBlocksBegin := Some b, prevGetBlocksStop := Some stop\<rparr>)"
    by (simp add: PushGetBlocksMsg_def Let_def IsEqual_def del: addLocatorHashes.simps)
  have third: "Connected p \<longrightarrow>
           outputQueue ((QueueMessage p (MGetBlocks (Some b # rest) stop) None)
                  \<lparr>prevGetBlocksBegin := Some b, prevGetBlocksStop := Some stop\<rparr>) =
             outputQueue p @ [\<lparr>msg = MGetBlocks (Some b # rest) stop, doneChan = None,
                               encoding = BaseEncoding\<rparr>]"
    by (simp add: QueueMessage_def QueueMessageWithEncoding_def)
  from first second third show ?thesis by blast
qed

theorem push_get_blocks_twice_witness:
  "length [Some hashA, Some hashB] \<le> MaxBlockLocatorsPerMsg
   \<and> prevGetBlocksBegin livePeer = None
   \<and> (\<exists>p1. PushGetBlocksMsg livePeer [Some hashA, Some hashB] (Some hashB) = Inr p1
        \<and> PushGetBlocksMsg p1 [Some hashA, Some hashB] (Some hashB) = Inr p1
        \<and> outputQueue p1 = [\<lparr>msg = MGetBlocks [Some hashA, Some hashB] hashB, doneChan = None,
                               encoding = BaseEncoding\<rparr>])"
proof -
  have l: "length (Some hashA # [Some hashB]) \<le> MaxBlockLocatorsPerMsg"
    by (simp add: MaxBlockLocatorsPerMsg_def)
  have n: "prevGetBlocksBegin livePeer = None"
    by (simp add: livePeer_def freshPeer_def newPeerBase_def)
  then have d: "\<not> (prevGetBlocksBegin livePeer = Some hashA \<and> prevGetBlocksStop livePeer = Some hashB)"
    by simp
  have c: "Connected livePeer"
    by (simp add: Connected_def livePeer_def freshPeer_def newPeerBase_def)
  have q: "outputQueue livePeer = []"
    by (simp add: livePeer_def freshPeer_def newPeerBase_def)
  from push_get_blocks_twice [OF l d, of "[Some hashB]"] c q l n
  show ?thesis by simp
qed


section \<open>Obsolete peers and the version listener\<close>

text \<open>
  Claim C2, as stated: a remote version below \<^verbatim>\<open>MinAcceptableProtocolVersion\<close> gets a
  reject with code Obsolete, and the check comes before the \<^verbatim>\<open>OnVersion\<close> listener, so
  that the Obsolete reject is produced whatever the listener returns. The code asks the
  listener first: for a version message with protocol version 0 and a listener that
  returns a reject of its own, that reject is the only message written and its reason is
  the error returned; no Obsolete reject is written.
\<close>

theorem listener_reject_before_obsolete:
  "ProtocolVersion versionZero < MinAcceptableProtocolVersion
   \<and> written (conn (fst (snd (readRemoteVersionMsg (Some (\<lambda>p m. Some bannedReject)) wroteAll
        1600000100 (120, Inr (MVersion versionZero)) noGlobals livePeer))))
      = [MReject bannedReject]
   \<and> snd (snd (readRemoteVersionMsg (Some (\<lambda>p m. Some bannedReject)) wroteAll
        1600000100 (120, Inr (MVersion versionZero)) noGlobals livePeer))
      = Inl (ErrorString ''banned'')
   \<and> RejectCode bannedReject \<noteq> RejectObsolete"
  by (simp add: readRemoteVersionMsg_def readMessage_def writeMessage_def recordVersion_def
      livePeer_def freshPeer_def newPeerBase_def versionZero_def bannedReject_def
      noGlobals_def wroteAll_def NewMsgReject_def MinAcceptableProtocolVersion_def Let_def)

lemma read_obsolete:
  assumes "\<not> versionKnown p" and "disconnect p = 0"
      and "snd rd = Inr (MVersion m)"
      and "AllowSelfConns g \<or> VNonce m \<notin> set (SentNonces g)"
      and "ProtocolVersion m < MinAcceptableProtocolVersion"
  shows "readRemoteVersionMsg OnVersion wr now rd g p =
      (fst (readRemoteVersionMsg OnVersion wr now rd g p),
       (let p2 = snd (recordVersion now g (fst (readMessage rd p)) m);
            rej = (case (case OnVersion of None \<Rightarrow> None | Some f \<Rightarrow> f p2 m) of
                     None \<Rightarrow> MReject (NewMsgReject CmdVersion RejectObsolete obsoleteReason)
                   | Some r \<Rightarrow> MReject r)
        in fst (writeMessage wr p2 rej LatestEncoding)),
       Inl (ErrorString
              (case (case OnVersion of None \<Rightarrow> None
                     | Some f \<Rightarrow> f (snd (recordVersion now g (fst (readMessage rd p)) m)) m) of
                 None \<Rightarrow> obsoleteReason | Some r \<Rightarrow> Reason r)))"
  using assms
  by (auto simp add: readRemoteVersionMsg_def readMessage_def recordVersion_def Let_def
      split: prod.splits option.splits)


text \<open>
  Claim C2, amended. Take an inbound peer that is connected (its connection is
  associated and its \<^verbatim>\<open>disconnect\<close> flag is not set) and has not seen a version yet, a
  negotiation that returns before \<^verbatim>\<open>negotiateTimeout\<close>, and as the first message read a
  version message that is not detected as a self-connection (self-connections are
  allowed, or its nonce is not in \<^verbatim>\<open>SentNonces\<close>) and whose protocol version is below
  \<^verbatim>\<open>MinAcceptableProtocolVersion\<close> (that is, 0). Then \<^verbatim>\<open>start\<close> asks the \<^verbatim>\<open>OnVersion\<close>
  listener first, with the peer as it is after the version has been recorded. If there
  is no listener or it returns nil, a reject with command version, code Obsolete and the
  reason "protocol version must be 1 or greater" is written (the connection holds it
  when the wire writer returns no error), and \<^verbatim>\<open>start\<close> returns that reason as its
  error without starting the handlers. If the listener returns a reject, that reject is
  written instead, its reason is the error, and no Obsolete reject is written. In both
  cases \<^verbatim>\<open>start\<close> disconnects the peer: the flag is set, the connection is closed once
  and \<^verbatim>\<open>quit\<close> is fired once.
\<close>

theorem obsolete_version:
  fixes h :: Handshake and g :: Globals and p :: Peer and m :: MsgVersion
  defines "answer \<equiv> (case hsOnVersion h of None \<Rightarrow> None
             | Some f \<Rightarrow> f (snd (recordVersion (hsNow h) g (fst (readMessage (hsRead h) p)) m)) m)"
      and "obsolete \<equiv> MReject \<lparr>Cmd = CmdVersion, RejectCode = RejectObsolete,
             Reason = ''protocol version must be 1 or greater'', RejectHash = zeroHash\<rparr>"
  assumes "inbound p" and "Connected p" and "\<not> versionKnown p" and "\<not> hsTimedOut h"
      and "snd (hsRead h) = Inr (MVersion m)"
      and "AllowSelfConns g \<or> VNonce m \<notin> set (SentNonces g)"
      and "ProtocolVersion m < MinAcceptableProtocolVersion"
  shows "(answer = None \<longrightarrow>
            snd (snd (start h g p)) =
              (Some (ErrorString ''protocol version must be 1 or greater''), False)
          \<and> written (conn (fst (snd (start h g p)))) =
              written (conn p) @ (if snd (hsWriter h obsolete) = None then [obsolete] else []))
       \<and> (\<forall>r. answer = Some r \<longrightarrow>
            snd (snd (start h g p)) = (Some (ErrorString (Reason r)), False)
          \<and> written (conn (fst (snd (start h g p)))) =
              written (conn p) @ (if snd (hsWriter h (MReject r)) = None then [MReject r] else []))
       \<and> \<not> Connected (fst (snd (start h g p)))
       \<and> disconnect (fst (snd (start h g p))) = 1
       \<and> closed (conn (fst (snd (start h g p)))) = closed (conn p) + 1
       \<and> quit (fst (snd (start h g p))) = quit p + 1"
proof -
  from assms(4) have c: "connected p \<noteq> 0" and d: "disconnect p = 0"
    by (simp_all add: Connected_def)
  let ?p2 = "snd (recordVersion (hsNow h) g (fst (readMessage (hsRead h) p)) m)"
  let ?rej = "case answer of
                None \<Rightarrow> MReject (NewMsgReject CmdVersion RejectObsolete obsoleteReason)
              | Some r \<Rightarrow> MReject r"
  let ?p3 = "fst (writeMessage (hsWriter h) ?p2 ?rej LatestEncoding)"
  let ?e = "ErrorString (case answer of None \<Rightarrow> obsoleteReason | Some r \<Rightarrow> Reason r)"
  from read_obsolete [OF assms(5) d assms(7) assms(8) assms(9),
      where OnVersion = "hsOnVersion h" and wr = "hsWriter h" and now = "hsNow h"]
  obtain g1 where rd: "readRemoteVersionMsg (hsOnVersion h) (hsWriter h) (hsNow h) (hsRead h) g p
      = (g1, ?p3, Inl ?e)"
    unfolding answer_def Let_def by simp
  have st: "start h g p = (g1, Disconnect ?p3, Some ?e, False)"
    using assms(3) assms(6) rd
    by (simp add: start_def negotiateInboundProtocol_def Chk_def)
  have p2: "connected ?p2 = connected p \<and> disconnect ?p2 = 0 \<and> quit ?p2 = quit p
      \<and> conn ?p2 = conn p"
    using d by (simp add: recordVersion_def readMessage_def Let_def)
  have p3: "connected ?p3 = connected p \<and> disconnect ?p3 = 0 \<and> quit ?p3 = quit p
      \<and> closed (conn ?p3) = closed (conn p)
      \<and> written (conn ?p3) =
          written (conn p) @ (if snd (hsWriter h ?rej) = None then [?rej] else [])"
    using p2 by (simp add: writeMessage_def)
  have dis: "\<not> Connected (Disconnect ?p3) \<and> disconnect (Disconnect ?p3) = 1
      \<and> closed (conn (Disconnect ?p3)) = closed (conn p) + 1
      \<and> quit (Disconnect ?p3) = quit p + 1
      \<and> written (conn (Disconnect ?p3)) = written (conn ?p3)"
    using p3 c by (simp add: Disconnect_def Connected_def Let_def)
  have none: "answer = None \<longrightarrow>
            snd (snd (start h g p)) =
              (Some (ErrorString ''protocol version must be 1 or greater''), False)
          \<and> written (conn (fst (snd (start h g p)))) =
              written (conn p) @ (if snd (hsWriter h obsolete) = None then [obsolete] else [])"
  proof
    assume a: "answer = None"
    have "?rej = obsolete"
      by (simp add: a obsolete_def NewMsgReject_def obsoleteReason_def)
    with dis p3 a show "snd (snd (start h g p)) =
              (Some (ErrorString ''protocol version must be 1 or greater''), False)
          \<and> written (conn (fst (snd (start h g p)))) =
              written (conn p) @ (if snd (hsWriter h obsolete) = None then [obsolete] else [])"
      unfolding st by (simp add: obsoleteReason_def)
  qed
  have some: "\<forall>r. answer = Some r \<longrightarrow>
            snd (snd (start h g p)) = (Some (ErrorString (Reason r)), False)
          \<and> written (conn (fst (snd (start h g p)))) =
              written (conn p) @ (if snd (hsWriter h (MReject r)) = None then [MReject r] else [])"
  proof (intro allI impI)
    fix r
    assume a: "answer = Some r"
    have "?rej = MReject r" by (simp add: a)
    with dis p3 a show "snd (snd (start h g p)) = (Some (ErrorString (Reason r)), False)
          \<and> written (conn (fst (snd (start h g p)))) =
              written (conn p) @ (if snd (hsWriter h (MReject r)) = None then [MReject r] else [])"
      unfolding st by simp
  qed
  from none some dis show ?thesis unfolding st by simp
qed

theorem obsolete_version_witness:
  "inbound inboundPeer \<and> Connected inboundPeer \<and> \<not> versionKnown inboundPeer
   \<and> ProtocolVersion versionZero < MinAcceptableProtocolVersion
   \<and> snd (snd (start obsoleteHandshake noGlobals inboundPeer)) =
       (Some (ErrorString ''protocol version must be 1 or greater''), False)
   \<and> written (conn (fst (snd (start obsoleteHandshake noGlobals inboundPeer)))) =
       [MReject \<lparr>Cmd = CmdVersion, RejectCode = RejectObsolete,
                  Reason = ''protocol version must be 1 or greater'', RejectHash = zeroHash\<rparr>]
   \<and> \<not> Connected (fst (snd (start obsoleteHandshake noGlobals inboundPeer)))
   \<and> closed (conn (fst (snd (start obsoleteHandshake noGlobals inboundPeer)))) = 1
   \<and> quit (fst (snd (start obsoleteHandshake noGlobals inboundPeer))) = 1"
proof -
  have a: "inbound inboundPeer" and b: "Connected inboundPeer"
    and c: "\<not> versionKnown inboundPeer" and w: "written (conn inboundPeer) = []"
    and cl: "closed (conn inboundPeer) = 0" and q: "quit inboundPeer = 0"
    by (simp_all add: inboundPeer_def newPeerBase_def Connected_def)
  have t: "\<not> hsTimedOut obsoleteHandshake"
    and r: "snd (hsRead obsoleteHandshake) = Inr (MVersion versionZero)"
    and l: "hsOnVersion obsoleteHandshake = None"
    and wr: "snd (hsWriter obsoleteHandshake x) = None" for x
    by (simp_all add: obsoleteHandshake_def wroteAll_def)
  have d: "AllowSelfConns noGlobals \<or> VNonce versionZero \<notin> set (SentNonces noGlobals)"
    by (simp add: noGlobals_def)
  have e: "ProtocolVersion versionZero < MinAcceptableProtocolVersion"
    by (simp add: versionZero_def MinAcceptableProtocolVersion_def)
  from obsolete_version [OF a b c t r d e] a b c e w cl q l wr
  show ?thesis by simp
qed

text \<open>The outbound branch of \<^verbatim>\<open>start\<close> tests \<^verbatim>\<open>ee\<close>, which it never assigns: the same
  version message on an outbound peer leaves the peer connected and starts the handlers.\<close>

lemma outbound_obsolete_goes_on:
  "\<not> inbound livePeer
   \<and> snd (snd (start obsoleteHandshake noGlobals livePeer)) = (None, True)
   \<and> Connected (fst (snd (start obsoleteHandshake noGlobals livePeer)))"
  by (simp add: start_def negotiateOutboundProtocol_def writeLocalVersionMsg_def
      localVersionMsg_def readRemoteVersionMsg_def readMessage_def recordVersion_def
      writeMessage_def QueueMessage_def QueueMessageWithEncoding_def Connected_def Chk_def
      obsoleteHandshake_def wroteAll_def noGlobals_def versionZero_def nonceAdd_def
      livePeer_def freshPeer_def newPeerBase_def MinAcceptableProtocolVersion_def Let_def)

section \<open>What an accepted version message sets\<close>

text \<open>
  Claim C6. When \<^verbatim>\<open>readRemoteVersionMsg\<close> accepts a version message \<open>m\<close> (it returns
  \<open>m\<close> and no error) on a peer whose protocol version is still the one \<^verbatim>\<open>newPeerBase\<close>
  set from the configuration (the configured maximum, \<^verbatim>\<open>MaxProtocolVersion\<close> when the
  configuration gives 0), then afterwards the negotiated protocol version is the minimum
  of that maximum and the advertised version, the services and the user agent are those
  of the message, the starting height and the last block are the message's
  \<^verbatim>\<open>LastBlock\<close>, and the time offset is the message's timestamp in Unix seconds minus
  the local Unix time (in 64-bit arithmetic, as in Go).
\<close>

theorem version_accepted:
  assumes "readRemoteVersionMsg OnVersion wr now rd g p = (g', p', Inr (Some m))"
      and "protocolVersion p = protocolVersion (newPeerBase origCfg inb)"
  shows "protocolVersion p' =
           min (if cfgProtocolVersion origCfg = 0 then MaxProtocolVersion
                else cfgProtocolVersion origCfg) (ProtocolVersion m)
       \<and> advertisedProtoVer p' = ProtocolVersion m
       \<and> services p' = Services m
       \<and> userAgent p' = UserAgent m
       \<and> startingHeight p' = LastBlock m
       \<and> lastBlock p' = LastBlock m
       \<and> timeOffset p' = Timestamp m - now
       \<and> versionKnown p'"
proof -
  have pv: "protocolVersion (newPeerBase origCfg inb) =
      (if cfgProtocolVersion origCfg = 0 then MaxProtocolVersion else cfgProtocolVersion origCfg)"
    by (simp add: newPeerBase_def Let_def)
  have mn: "\<And>a b. minUint32 a b = min a b"
    by (auto simp add: minUint32_def min_def)
  from assms(1) have "\<not> versionKnown p"
    by (auto simp add: readRemoteVersionMsg_def)
  with assms(1) obtain n where rd: "rd = (n, Inr (MVersion m))"
    and p': "p' = snd (recordVersion now g (fst (readMessage rd p)) m)"
    by (cases rd)
       (auto simp add: readRemoteVersionMsg_def readMessage_def Let_def
          split: prod.splits option.splits sum.splits Message.splits if_splits)
  show ?thesis
    unfolding p' rd using assms(2) pv
    by (simp add: recordVersion_def readMessage_def Let_def mn)
qed

theorem version_accepted_witness:
  "(\<exists>g' p'. readRemoteVersionMsg None wroteAll 1600000100 (120, Inr (MVersion versionNew))
               noGlobals livePeer = (g', p', Inr (Some versionNew))
           \<and> protocolVersion p' = 70002 \<and> services p' = 1 \<and> userAgent p' = ''/pod:1.0/''
           \<and> startingHeight p' = 100 \<and> lastBlock p' = 100 \<and> timeOffset p' = - 100)
   \<and> protocolVersion livePeer = 70013"
proof -
  let ?r = "readRemoteVersionMsg None wroteAll 1600000100 (120, Inr (MVersion versionNew))
               noGlobals livePeer"
  have r: "?r = (fst ?r, fst (snd ?r), Inr (Some versionNew))"
    by (simp add: readRemoteVersionMsg_def readMessage_def recordVersion_def Let_def
        livePeer_def freshPeer_def newPeerBase_def versionNew_def noGlobals_def
        MinAcceptableProtocolVersion_def)
  have pv: "protocolVersion livePeer =
      protocolVersion (newPeerBase \<lparr>cfgServices = 0, cfgProtocolVersion = 0\<rparr> False)"
    by (simp add: livePeer_def freshPeer_def)
  from version_accepted [OF r pv]
  have "protocolVersion (fst (snd ?r)) = 70002 \<and> services (fst (snd ?r)) = 1
      \<and> userAgent (fst (snd ?r)) = ''/pod:1.0/''
      \<and> startingHeight (fst (snd ?r)) = 100 \<and> lastBlock (fst (snd ?r)) = 100
      \<and> timeOffset (fst (snd ?r)) = - 100"
    by (simp add: versionNew_def MaxProtocolVersion_def FeeFilterVersion_def)
  moreover have "protocolVersion livePeer = 70013"
    by (simp add: livePeer_def freshPeer_def newPeerBase_def MaxProtocolVersion_def
        FeeFilterVersion_def)
  ultimately show ?thesis using r by blast
qed


section \<open>A second verack, a second version\<close>

text \<open>
  Claim C8, as stated: after the handshake a duplicate verack changes nothing and is no
  error, while any version message makes the input handler send a reject with code
  Duplicate and exit. \<^verbatim>\<open>PushRejectMsg\<close> sends nothing to a peer whose negotiated
  protocol version is below \<^verbatim>\<open>wire.RejectVersion\<close>: a connected peer that negotiated
  version 60002 and receives a second version message leaves the loop with nothing
  queued and nothing written.
\<close>

theorem duplicate_version_without_reject:
  "Connected oldPeer \<and> versionKnown oldPeer \<and> verAckReceived oldPeer
   \<and> fst (inHandler_message (\<lambda>m. None) 1600000000 0 oldPeer (MVersion versionNew)) = Break
   \<and> outputQueue (snd (inHandler_message (\<lambda>m. None) 1600000000 0 oldPeer (MVersion versionNew)))
      = []
   \<and> sendQueue (snd (inHandler_message (\<lambda>m. None) 1600000000 0 oldPeer (MVersion versionNew)))
      = []
   \<and> written (conn (snd (inHandler_message (\<lambda>m. None) 1600000000 0 oldPeer
        (MVersion versionNew)))) = []"
  by (simp add: inHandler_message_def PushRejectMsg_def oldPeer_def livePeer_def freshPeer_def
      newPeerBase_def Connected_def RejectVersion_def Let_def)

text \<open>
  Claim C8, amended. On a connected peer whose version is known: a verack received when
  \<^verbatim>\<open>verAckReceived\<close> is already set leaves every field of the peer as it was except the
  last-receive time and the three signals to the stall handler, calls no listener, and
  the loop goes on; a version message makes the loop end, and the peer is then
  disconnected (connection closed, \<^verbatim>\<open>quit\<close> fired); before that a reject with command
  version, code Duplicate and reason "duplicate version message" is put on the output
  queue with a done channel when the negotiated protocol version is at least
  \<^verbatim>\<open>wire.RejectVersion\<close>, and nothing is queued when it is below.
\<close>

theorem duplicate_verack_and_version:
  assumes "versionKnown p" and "Connected p"
  shows "(verAckReceived p \<longrightarrow>
            inHandler_message listener nowUnix nowNs p MVerAck =
              (Continue,
               p\<lparr>lastRecv := nowUnix,
                 stallControl := stallControl p @
                   [\<lparr>command = sccReceiveMessage, message = MVerAck\<rparr>,
                    \<lparr>command = sccHandlerStart, message = MVerAck\<rparr>,
                    \<lparr>command = sccHandlerDone, message = MVerAck\<rparr>]\<rparr>))
       \<and> fst (inHandler_message listener nowUnix nowNs p (MVersion m)) = Break
       \<and> (RejectVersion \<le> protocolVersion p \<longrightarrow>
            outputQueue (snd (inHandler_message listener nowUnix nowNs p (MVersion m))) =
              outputQueue p @ [\<lparr>msg = MReject duplicateVersionReject,
                                 doneChan = Some (nextChan p), encoding = BaseEncoding\<rparr>])
       \<and> (protocolVersion p < RejectVersion \<longrightarrow>
            outputQueue (snd (inHandler_message listener nowUnix nowNs p (MVersion m))) =
              outputQueue p)
       \<and> \<not> Connected (inHandler_exit (snd (inHandler_message listener nowUnix nowNs p (MVersion m))))
       \<and> quit (inHandler_exit (snd (inHandler_message listener nowUnix nowNs p (MVersion m)))) =
           quit p + 1
       \<and> closed (conn (inHandler_exit
            (snd (inHandler_message listener nowUnix nowNs p (MVersion m))))) =
           closed (conn p) + 1"
proof -
  from assms(2) have c: "connected p \<noteq> 0" and d: "disconnect p = 0"
    by (simp_all add: Connected_def)
  have verack: "verAckReceived p \<longrightarrow>
            inHandler_message listener nowUnix nowNs p MVerAck =
              (Continue,
               p\<lparr>lastRecv := nowUnix,
                 stallControl := stallControl p @
                   [\<lparr>command = sccReceiveMessage, message = MVerAck\<rparr>,
                    \<lparr>command = sccHandlerStart, message = MVerAck\<rparr>,
                    \<lparr>command = sccHandlerDone, message = MVerAck\<rparr>]\<rparr>)"
    by (simp add: inHandler_message_def Let_def)
  have brk: "fst (inHandler_message listener nowUnix nowNs p (MVersion m)) = Break"
    by (simp add: inHandler_message_def Let_def)
  have sent: "RejectVersion \<le> protocolVersion p \<longrightarrow>
            outputQueue (snd (inHandler_message listener nowUnix nowNs p (MVersion m))) =
              outputQueue p @ [\<lparr>msg = MReject duplicateVersionReject,
                                 doneChan = Some (nextChan p), encoding = BaseEncoding\<rparr>]"
    using c d
    by (auto simp add: inHandler_message_def PushRejectMsg_def QueueMessage_def
        QueueMessageWithEncoding_def Connected_def NewMsgReject_def duplicateVersionReject_def
        Cmd_defs Let_def)
  have unsent: "protocolVersion p < RejectVersion \<longrightarrow>
            outputQueue (snd (inHandler_message listener nowUnix nowNs p (MVersion m))) =
              outputQueue p"
    using assms(1) by (simp add: inHandler_message_def PushRejectMsg_def Let_def)
  let ?q = "snd (inHandler_message listener nowUnix nowNs p (MVersion m))"
  have q: "connected ?q = connected p \<and> disconnect ?q = 0 \<and> quit ?q = quit p
      \<and> closed (conn ?q) = closed (conn p)"
    using c d
    by (simp add: inHandler_message_def PushRejectMsg_def QueueMessage_def
        QueueMessageWithEncoding_def Connected_def Let_def)
  then have ex: "\<not> Connected (inHandler_exit ?q) \<and> quit (inHandler_exit ?q) = quit p + 1
      \<and> closed (conn (inHandler_exit ?q)) = closed (conn p) + 1"
    using c by (simp add: inHandler_exit_def Disconnect_def Connected_def Let_def)
  from verack brk sent unsent ex show ?thesis by blast
qed

theorem duplicate_verack_and_version_witness:
  "versionKnown newPeer \<and> Connected newPeer \<and> verAckReceived newPeer
   \<and> RejectVersion \<le> protocolVersion newPeer
   \<and> fst (inHandler_message (\<lambda>m. None) 1600000000 0 newPeer MVerAck) = Continue
   \<and> verAckReceived (snd (inHandler_message (\<lambda>m. None) 1600000000 0 newPeer MVerAck))
   \<and> outputQueue (snd (inHandler_message (\<lambda>m. None) 1600000000 0 newPeer (MVersion versionNew)))
      = [\<lparr>msg = MReject duplicateVersionReject, doneChan = Some 0, encoding = BaseEncoding\<rparr>]
   \<and> versionKnown oldPeer \<and> Connected oldPeer \<and> protocolVersion oldPeer < RejectVersion
   \<and> outputQueue (snd (inHandler_message (\<lambda>m. None) 1600000000 0 oldPeer (MVersion versionNew)))
      = []"
proof -
  have n: "versionKnown newPeer" "Connected newPeer" "verAckReceived newPeer"
      "RejectVersion \<le> protocolVersion newPeer" "outputQueue newPeer = []" "nextChan newPeer = 0"
    by (simp_all add: newPeer_def livePeer_def freshPeer_def newPeerBase_def Connected_def
        RejectVersion_def)
  have o: "versionKnown oldPeer" "Connected oldPeer" "protocolVersion oldPeer < RejectVersion"
      "outputQueue oldPeer = []"
    by (simp_all add: oldPeer_def livePeer_def freshPeer_def newPeerBase_def Connected_def
        RejectVersion_def)
  from duplicate_verack_and_version [OF n(1) n(2), where listener = "\<lambda>m. None"
      and nowUnix = 1600000000 and nowNs = 0 and m = versionNew] n
  have a: "fst (inHandler_message (\<lambda>m. None) 1600000000 0 newPeer MVerAck) = Continue
   \<and> verAckReceived (snd (inHandler_message (\<lambda>m. None) 1600000000 0 newPeer MVerAck))
   \<and> outputQueue (snd (inHandler_message (\<lambda>m. None) 1600000000 0 newPeer (MVersion versionNew)))
      = [\<lparr>msg = MReject duplicateVersionReject, doneChan = Some 0, encoding = BaseEncoding\<rparr>]"
    by simp
  from duplicate_verack_and_version [OF o(1) o(2), where listener = "\<lambda>m. None"
      and nowUnix = 1600000000 and nowNs = 0 and m = versionNew] o
  have b: "outputQueue (snd (inHandler_message (\<lambda>m. None) 1600000000 0 oldPeer
      (MVersion versionNew))) = []"
    by simp
  from a b n o show ?thesis by simp
qed


end
